theory Spec2Isabelle
  imports Complex_Main
begin

section \<open>Data model of \<^verbatim>\<open>src/main.ts\<close>\<close>

text \<open>
  The main process of the desktop application is a single-threaded event loop over a
  set of module-level variables. The embedding keeps every such variable as a field of
  the record \<open>state\<close> (same names), turns every function of the source into a function
  from state to state, and turns every callback the event loop can run (an HTTP request,
  a timer firing, a child process exiting, an IPC call, a power event) into a
  constructor of the datatype \<open>event\<close>. Values the source reads from outside
  (\<^verbatim>\<open>Date.now()\<close>, the outcome of a DNS query or of a reachability probe, an exit
  code, the output of a child process) are arguments of the event.
\<close>

record Workspace =
  ws_id :: string
  ws_name :: string
  ws_paths :: "string list"
  ws_protected :: "string list"

text \<open>
  A value as \<^verbatim>\<open>JSON.parse\<close> returns it. The objects are the parsed ones: a key occurs
  once.
\<close>

datatype json =
    JNull
  | JBool bool
  | JNum real
  | JStr string
  | JArr "json list"
  | JObj "(string \<times> json) list"

text \<open>\<^verbatim>\<open>!!v\<close> for such a value.\<close>

fun jsTruthy :: "json \<Rightarrow> bool" where
  "jsTruthy JNull = False"
| "jsTruthy (JBool b) = b"
| "jsTruthy (JNum x) = (x \<noteq> 0)"
| "jsTruthy (JStr str) = (str \<noteq> [])"
| "jsTruthy (JArr xs) = True"
| "jsTruthy (JObj kvs) = True"

text \<open>
  \<open>aiSource\<close> is a TypeScript string union, which is not checked at run time: the
  source compares it as a string (and \<^verbatim>\<open>generateOpenClawConfig\<close> has a branch for
  an unknown value), so it is a string here; every writer stores one of the three known
  strings or a typed argument. \<open>apiKey\<close> and \<open>apiProvider\<close> are declared strings too,
  but the \<^verbatim>\<open>POST /global/ai-config\<close> handler stores whatever value the request body
  holds for them, so they are values of type \<open>json\<close>.
\<close>

record Config =
  port :: int
  password :: string
  workspaces :: "Workspace list"
  activeWorkspaceId :: "string option"
  aiSource :: string
  apiKey :: json
  apiProvider :: json

text \<open>The file \<^verbatim>\<open>openclaw.json\<close> written by \<^verbatim>\<open>generateOpenClawConfig\<close>.\<close>

record OpenClawConfig =
  gw_port :: int
  gw_token :: string
  primary :: string
  cliBackends :: "(string \<times> string) list"

datatype health = Healthy | Checking | Down

text \<open>
  What the program does to the outside world is appended to a log: messages sent to
  the renderer (\<^verbatim>\<open>send(channel, data)\<close>), processes spawned and killed, timers armed
  with \<^verbatim>\<open>setTimeout\<close>, DNS queries and reachability probes issued, and an exception
  that leaves a callback uncaught (\<open>Throw\<close>; the program installs no handler for it, and
  the later callbacks still run). The entries
  \<open>Called\<close> are ghost entries: they record each entry into \<^verbatim>\<open>startTunnel\<close>,
  \<^verbatim>\<open>startServer\<close> and \<^verbatim>\<open>stopServer\<close>, so that invocations can be counted.
  \<^verbatim>\<open>send\<close> is logged whether or not a window exists (\<^verbatim>\<open>mainWindow?.\<close>).
\<close>

datatype payload =
    PBool bool
  | PStr string
  | PHealth health
  | PConfig Config
  | PSessions "string list"
  | PExitCode "int option"

datatype call = StartTunnel | StartServer | StopServer bool

datatype effect =
    Send string payload
  | SpawnTunnel nat string int
  | SpawnGateway nat string Config "(string \<times> json) list"
  | SpawnCaffeinate nat
  | Kill nat
  | SetTimeout nat string
  | Resolve4 string "string list"
  | HttpsGet string string
  | Throw string
  | Called call

text \<open>
  The variables that \<^verbatim>\<open>startTunnel\<close> closes over, one record per spawned tunnel
  process: \<open>urlFound\<close> and \<open>rateLimited\<close> are the source's locals; \<open>tunnelUrl\<close>,
  \<open>hostname\<close> and \<open>dnsStart\<close> are the constants of the \<^verbatim>\<open>if (match)\<close> block;
  \<open>resolving\<close> says that a \<^verbatim>\<open>resolve4\<close> call is in flight, \<open>dnsTimer\<close> that a
  \<^verbatim>\<open>setTimeout(waitForDns, 1000)\<close> is pending, \<open>exited\<close> that the exit event of the
  process has been delivered.
\<close>

record tunnel_closure =
  urlFound :: bool
  rateLimited :: bool
  tunnelUrl :: string
  hostname :: string
  dnsStart :: int
  resolving :: bool
  dnsTimer :: bool
  exited :: bool

text \<open>The constants \<^verbatim>\<open>startProxyServer\<close> closes over.\<close>

record proxy_closure =
  expectedAuth :: string
  targetPort :: int
  proxyPort :: int

text \<open>
  The module-level variables, then the part of the world the callbacks depend on:
  the persisted configuration file (\<open>disk\<close>), what \<^verbatim>\<open>findBinary\<close> finds
  (\<open>bins\<close>), the generated gateway configuration, the spawned processes and the
  pending timers. An interval handle is a boolean: the interval exists or not.
  Each call of \<^verbatim>\<open>startTunnelHealthMonitor\<close> makes a closure with a local
  \<^verbatim>\<open>failCount\<close> of its own: \<open>monitorId\<close> names the closure of the latest call (the one
  whose interval can exist), \<open>failCounts\<close> holds the local of every closure, and
  \<open>probes\<close> counts, for every closure, the reachability probes that are awaited: the
  callback is \<^verbatim>\<open>async\<close> and the part after \<^verbatim>\<open>await\<close> runs in a later turn, also
  when the interval has been cleared or replaced meanwhile. \<open>sessions\<close> and
  \<open>gatewayWs\<close> are left out: \<^verbatim>\<open>connectGatewayWs\<close> returns before it opens a socket,
  so the socket is always null and the roster always empty.
\<close>

record state =
  gatewayProc :: "nat option"
  cloudflaredProc :: "nat option"
  setupHttpServer :: bool
  proxyServer :: "proxy_closure option"
  intentionallyStopping :: bool
  tunnelRestarting :: bool
  currentTunnelURL :: string
  tunnelHealthInterval :: bool
  monitorId :: nat
  failCounts :: "nat \<Rightarrow> nat"
  probes :: "nat \<Rightarrow> nat"
  tunnelHealthStatus :: health
  lastClientHeartbeat :: int
  clientPresenceInterval :: bool
  clientConnectedState :: bool
  clientAwayState :: bool
  caffeinateProc :: "nat option"
  disk :: Config
  bins :: "string \<Rightarrow> string option"
  openclawJson :: "OpenClawConfig option"
  nextPid :: nat
  tunnels :: "nat \<Rightarrow> tunnel_closure option"
  gateways :: "nat \<Rightarrow> bool option"
  restartTimers :: nat
  settleTimers :: nat
  trace :: "effect list"

definition CLAWDAUNT_PROTOCOL_VERSION :: nat where
  "CLAWDAUNT_PROTOCOL_VERSION = 1"

definition CLIENT_AWAY_TIMEOUT :: int where
  "CLIENT_AWAY_TIMEOUT = 30000"

definition CLIENT_DISCONNECT_TIMEOUT :: int where
  "CLIENT_DISCONNECT_TIMEOUT = 120000"

text \<open>The values of the module-level \<^verbatim>\<open>let\<close> declarations.\<close>

definition initial :: "Config \<Rightarrow> (string \<Rightarrow> string option) \<Rightarrow> state" where
  "initial cfg b = \<lparr>
     gatewayProc = None,
     cloudflaredProc = None,
     setupHttpServer = False,
     proxyServer = None,
     intentionallyStopping = False,
     tunnelRestarting = False,
     currentTunnelURL = [],
     tunnelHealthInterval = False,
     monitorId = 0,
     failCounts = (\<lambda>_. 0),
     probes = (\<lambda>_. 0),
     tunnelHealthStatus = Checking,
     lastClientHeartbeat = 0,
     clientPresenceInterval = False,
     clientConnectedState = False,
     clientAwayState = False,
     caffeinateProc = None,
     disk = cfg,
     bins = b,
     openclawJson = None,
     nextPid = 0,
     tunnels = (\<lambda>_. None),
     gateways = (\<lambda>_. None),
     restartTimers = 0,
     settleTimers = 0,
     trace = [] \<rparr>"

section \<open>Configuration and binary discovery\<close>

definition emit :: "effect \<Rightarrow> state \<Rightarrow> state" where
  "emit e s = s\<lparr>trace := trace s @ [e]\<rparr>"

definition send :: "string \<Rightarrow> payload \<Rightarrow> state \<Rightarrow> state" where
  "send channel d s = emit (Send channel d) s"

text \<open>
  \<^verbatim>\<open>loadConfig\<close> when the configuration file exists in the current format: the three
  defaults for fields that are falsy. (Creating the file on first run and migrating the
  old \<^verbatim>\<open>repos[]\<close> format draw random bytes and belong to the configuration store.)
\<close>

definition loadConfig :: "state \<Rightarrow> Config" where
  "loadConfig s =
     (let raw = disk s;
          raw = (if aiSource raw = [] then raw\<lparr>aiSource := ''claude-cli''\<rparr> else raw);
          raw = (if \<not> jsTruthy (apiKey raw) then raw\<lparr>apiKey := JStr []\<rparr> else raw);
          raw = (if \<not> jsTruthy (apiProvider raw)
                 then raw\<lparr>apiProvider := JStr ''anthropic''\<rparr> else raw)
      in raw)"

definition saveConfig :: "Config \<Rightarrow> state \<Rightarrow> state" where
  "saveConfig config s = s\<lparr>disk := config\<rparr>"

text \<open>
  \<^verbatim>\<open>findBinary\<close> searches the bundled directory and the search path on the file
  system; \<open>bins\<close> is the result of that search for each name.
\<close>

definition findBinary :: "string \<Rightarrow> state \<Rightarrow> string option" where
  "findBinary name s = bins s name"

definition generateOpenClawConfig :: "Config \<Rightarrow> state \<Rightarrow> state" where
  "generateOpenClawConfig config s =
     (let cb1 = (case findBinary ''claude'' s of
                   Some claudeBin \<Rightarrow> [(''claude-cli'', claudeBin)] | None \<Rightarrow> []);
          cb2 = (case findBinary ''codex'' s of
                   Some codexBin \<Rightarrow> [(''codex-cli'', codexBin)] | None \<Rightarrow> []);
          prim =
            (if aiSource config = ''claude-cli'' then ''claude-cli/opus-4.6''
             else if aiSource config = ''codex-cli'' then ''codex-cli/gpt-5.3-codex''
             else if aiSource config = ''api-key'' then
               (if apiProvider config = JStr ''openai'' then ''openai/gpt-4o''
                else ''anthropic/claude-sonnet-4-20250514'')
             else ''claude-cli/opus-4.6'')
      in s\<lparr>openclawJson := Some \<lparr>gw_port = port config, gw_token = password config,
                                  primary = prim, cliBackends = cb1 @ cb2\<rparr>\<rparr>)"

section \<open>Client presence monitoring\<close>

definition startClientPresenceMonitor :: "state \<Rightarrow> state" where
  "startClientPresenceMonitor s = s\<lparr>clientPresenceInterval := True\<rparr>"

definition stopClientPresenceMonitor :: "state \<Rightarrow> state" where
  "stopClientPresenceMonitor s =
     (if clientPresenceInterval s then s\<lparr>clientPresenceInterval := False\<rparr> else s)"

text \<open>The body of the 2 s interval callback; \<open>now\<close> is \<^verbatim>\<open>Date.now()\<close>.\<close>

definition presenceTick :: "int \<Rightarrow> state \<Rightarrow> state" where
  "presenceTick now s =
     (if \<not> clientConnectedState s \<or> lastClientHeartbeat s \<le> 0 then s
      else let elapsed = now - lastClientHeartbeat s in
        if elapsed > CLIENT_DISCONNECT_TIMEOUT then
          send ''client-disconnected'' (PBool True)
            (s\<lparr>clientConnectedState := False, clientAwayState := False,
               lastClientHeartbeat := 0\<rparr>)
        else if elapsed > CLIENT_AWAY_TIMEOUT \<and> \<not> clientAwayState s then
          send ''client-away'' (PBool True) (s\<lparr>clientAwayState := True\<rparr>)
        else s)"

section \<open>Scanning the tunnel process's output\<close>

text \<open>\<^verbatim>\<open>text.includes(sub)\<close>: \<open>sub\<close> occurs in \<open>text\<close> as a contiguous substring.\<close>

fun str_includes :: "string \<Rightarrow> string \<Rightarrow> bool" where
  "str_includes sub [] = (sub = [])"
| "str_includes sub (c # cs) = (take (length sub) (c # cs) = sub \<or> str_includes sub cs)"

definition isHostChar :: "char \<Rightarrow> bool" where
  "isHostChar c =
     (c \<in> set ''abcdefghijklmnopqrstuvwxyzABCDEFGHIJKLMNOPQRSTUVWXYZ0123456789-'')"

text \<open>
  The regular expression \<^verbatim>\<open>/https:\/\/[a-zA-Z0-9-]+\.trycloudflare\.com/\<close> anchored
  at the start of \<open>t\<close>. The class does not contain the dot, so the greedy run of class
  characters is the only candidate for the \<^verbatim>\<open>+\<close> group.
\<close>

definition matchAt :: "string \<Rightarrow> string option" where
  "matchAt t =
     (if take 8 t = ''https://'' then
        (let rest = drop 8 t;
             host = takeWhile isHostChar rest;
             after = dropWhile isHostChar rest
         in if host \<noteq> [] \<and> take 18 after = ''.trycloudflare.com''
            then Some (''https://'' @ host @ ''.trycloudflare.com'') else None)
      else None)"

text \<open>\<^verbatim>\<open>text.match(...)\<close> without the global flag: the leftmost match, or null.\<close>

fun matchTunnelUrl :: "string \<Rightarrow> string option" where
  "matchTunnelUrl [] = None"
| "matchTunnelUrl (c # cs) =
     (case matchAt (c # cs) of Some u \<Rightarrow> Some u | None \<Rightarrow> matchTunnelUrl cs)"

definition toLowerAscii :: "char \<Rightarrow> char" where
  "toLowerAscii c =
     (case map_of (zip ''ABCDEFGHIJKLMNOPQRSTUVWXYZ'' ''abcdefghijklmnopqrstuvwxyz'') c of
        Some l \<Rightarrow> l | None \<Rightarrow> c)"

text \<open>
  \<^verbatim>\<open>new URL(tunnelUrl).hostname\<close> for a string matched by the expression above. The URL
  parser puts the host (what follows \<^verbatim>\<open>https://\<close>) in lower case. A first label that
  then starts with \<^verbatim>\<open>xn--\<close> is taken for an encoded international name: the parser
  decodes and validates it, and the constructor throws a \<^verbatim>\<open>TypeError\<close> when that fails.
  What the parser makes of such a label is not modelled: it is the argument \<open>xn\<close>, the
  host name returned, or \<open>None\<close> when the constructor throws. The result of the
  function is \<open>None\<close> when the constructor throws.
\<close>

definition hostnameOf :: "string option \<Rightarrow> string \<Rightarrow> string option" where
  "hostnameOf xn u =
     (let host = map toLowerAscii (drop 8 u)
      in if take 4 host = ''xn--'' then xn else Some host)"

section \<open>Tunnel supervision and tunnel health\<close>

definition setTunnelHealth :: "health \<Rightarrow> state \<Rightarrow> state" where
  "setTunnelHealth status s = send ''tunnel-health'' (PHealth status) (s\<lparr>tunnelHealthStatus := status\<rparr>)"

text \<open>
  \<^verbatim>\<open>cloudflaredProc?.kill()\<close>: the signal is sent when the variable holds a process.
  The exit of the process is a later event. (\<open>killGateway\<close> and \<open>killCaffeinate\<close> below
  are the same for the other two variables.)
\<close>

definition killCloudflared :: "state \<Rightarrow> state" where
  "killCloudflared s = (case cloudflaredProc s of Some p \<Rightarrow> emit (Kill p) s | None \<Rightarrow> s)"

definition freshClosure :: tunnel_closure where
  "freshClosure = \<lparr>urlFound = False, rateLimited = False, tunnelUrl = [], hostname = [],
                    dnsStart = 0, resolving = False, dnsTimer = False, exited = False\<rparr>"

text \<open>
  \<^verbatim>\<open>startTunnel\<close> up to the registration of the handlers; the handlers themselves are
  \<open>onData\<close>, \<open>cloudflaredError\<close> and \<open>cloudflaredExit\<close> below, run by the events of the
  process they were registered on.
\<close>

definition startTunnel :: "state \<Rightarrow> state" where
  "startTunnel s0 =
     (let s = emit (Called StartTunnel) s0;
          config = loadConfig s
      in case findBinary ''cloudflared'' s of
           None \<Rightarrow>
             send ''error''
               (PStr ''cloudflared not found. Install with: brew install cloudflare/cloudflare/cloudflared'') s
         | Some cloudflaredBin \<Rightarrow>
             (let pid = nextPid s
              in emit (SpawnTunnel pid cloudflaredBin (port config + 1))
                   (s\<lparr>cloudflaredProc := Some pid, nextPid := Suc pid,
                      tunnels := (tunnels s)(pid := Some freshClosure)\<rparr>)))"

text \<open>
  \<^verbatim>\<open>startTunnelHealthMonitor\<close>: the interval is (re)created with a new closure, whose
  counter starts at 0, and the health is set to healthy at once.
\<close>

definition startTunnelHealthMonitor :: "state \<Rightarrow> state" where
  "startTunnelHealthMonitor s0 =
     (let m = Suc (monitorId s0);
          s = s0\<lparr>monitorId := m, failCounts := (failCounts s0)(m := 0)\<rparr>;
          s = setTunnelHealth Healthy s
      in s\<lparr>tunnelHealthInterval := True\<rparr>)"

text \<open>
  The callback of the 10 s interval is \<^verbatim>\<open>async\<close>. \<open>healthTick\<close> is its first turn:
  the guard, then the call of \<^verbatim>\<open>verifyTunnelReachable\<close>, which issues the HTTPS request;
  the probe is then awaited by the closure of the live interval.
\<close>

definition healthTick :: "state \<Rightarrow> state" where
  "healthTick s =
     (if currentTunnelURL s = [] \<or> intentionallyStopping s then s
      else
        emit (HttpsGet (currentTunnelURL s @ ''/global/health'')
                (''Bearer '' @ password (loadConfig s)))
          (s\<lparr>probes := (probes s)(monitorId s := Suc (probes s (monitorId s)))\<rparr>))"

text \<open>
  The rest of the callback, run in a later turn when the probe of the closure \<open>m\<close> has
  resolved to \<open>ok\<close>. It reads no guard again: \<^verbatim>\<open>failCount\<close> is the local of that closure,
  everything else is the module-level state of that later turn.
\<close>

definition healthTickResume :: "nat \<Rightarrow> bool \<Rightarrow> state \<Rightarrow> state" where
  "healthTickResume m ok s0 =
     (if ok then
        (let s = s0\<lparr>failCounts := (failCounts s0)(m := 0)\<rparr>
         in if tunnelHealthStatus s \<noteq> Healthy then setTunnelHealth Healthy s else s)
      else
        (let s = s0\<lparr>failCounts := (failCounts s0)(m := failCounts s0 m + 1)\<rparr>;
             s = (if failCounts s m = 1 then setTunnelHealth Checking s else s)
         in if failCounts s m \<ge> 3 then
              (let s = s\<lparr>failCounts := (failCounts s)(m := 0)\<rparr>;
                   s = setTunnelHealth Down s;
                   s = s\<lparr>currentTunnelURL := []\<rparr>;
                   s = send ''tunnel-url'' (PStr []) s;
                   s = s\<lparr>tunnelRestarting := True\<rparr>;
                   s = killCloudflared s;
                   s = s\<lparr>cloudflaredProc := None\<rparr>
               in startTunnel s)
            else s))"

text \<open>
  \<^verbatim>\<open>waitForDns\<close> of the tunnel process \<open>pid\<close>, up to the call of \<^verbatim>\<open>resolve4\<close>; the
  callback of \<^verbatim>\<open>resolve4\<close> is \<open>dnsCallback\<close>, with \<open>err\<close> true when the query failed.
\<close>

definition waitForDns :: "nat \<Rightarrow> int \<Rightarrow> state \<Rightarrow> state" where
  "waitForDns pid now s =
     (case tunnels s pid of
        None \<Rightarrow> s
      | Some c \<Rightarrow>
          if intentionallyStopping s then s
          else if now - dnsStart c > 30000 then killCloudflared s
          else emit (Resolve4 (hostname c) [''1.1.1.1'', ''8.8.8.8''])
                 (s\<lparr>tunnels := (tunnels s)(pid := Some (c\<lparr>resolving := True\<rparr>))\<rparr>))"

definition dnsCallback :: "nat \<Rightarrow> bool \<Rightarrow> state \<Rightarrow> state" where
  "dnsCallback pid err s =
     (case tunnels s pid of
        None \<Rightarrow> s
      | Some c \<Rightarrow>
          if err then
            emit (SetTimeout 1000 ''waitForDns'')
              (s\<lparr>tunnels := (tunnels s)(pid := Some (c\<lparr>resolving := False, dnsTimer := True\<rparr>))\<rparr>)
          else
            (let s = s\<lparr>tunnels := (tunnels s)(pid := Some (c\<lparr>resolving := False\<rparr>))\<rparr>;
                 s = s\<lparr>currentTunnelURL := tunnelUrl c\<rparr>;
                 s = send ''tunnel-url'' (PStr (tunnelUrl c)) s
             in startTunnelHealthMonitor s))"

text \<open>
  \<^verbatim>\<open>onData\<close> of the tunnel process \<open>pid\<close> on a chunk \<open>text\<close> of its output. The two
  reads of \<^verbatim>\<open>Date.now()\<close> in the turn that finds the URL (for \<^verbatim>\<open>dnsStart\<close> and in
  the first \<^verbatim>\<open>waitForDns\<close>) are the one value \<open>now\<close>; \<open>xn\<close> is explained at
  \<open>hostnameOf\<close>. When the URL constructor throws, the handler ends there, with
  \<^verbatim>\<open>urlFound\<close> already set: the exception is logged, no resolver is made and no query
  issued.
\<close>

definition onData :: "nat \<Rightarrow> string \<Rightarrow> int \<Rightarrow> string option \<Rightarrow> state \<Rightarrow> state" where
  "onData pid text now xn s =
     (case tunnels s pid of
        None \<Rightarrow> s
      | Some c \<Rightarrow>
          if urlFound c then s
          else if str_includes ''429'' text \<or> str_includes ''Too Many Requests'' text then
            send ''error'' (PStr ''Cloudflare rate limit hit. Please wait a few minutes and retry.'')
              (s\<lparr>tunnels := (tunnels s)(pid := Some (c\<lparr>rateLimited := True\<rparr>))\<rparr>)
          else
            (case matchTunnelUrl text of
               None \<Rightarrow> s
             | Some u \<Rightarrow>
                 (case hostnameOf xn u of
                    None \<Rightarrow>
                      emit (Throw ''TypeError: Invalid URL'')
                        (s\<lparr>tunnels := (tunnels s)(pid := Some (c\<lparr>urlFound := True\<rparr>))\<rparr>)
                  | Some h \<Rightarrow>
                      waitForDns pid now
                        (s\<lparr>tunnels := (tunnels s)(pid := Some (c\<lparr>urlFound := True, tunnelUrl := u,
                              hostname := h, dnsStart := now\<rparr>))\<rparr>))))"

definition cloudflaredError :: "string \<Rightarrow> state \<Rightarrow> state" where
  "cloudflaredError msg s = send ''error'' (PStr (''cloudflared error: '' @ msg)) s"

text \<open>The exit handler of the tunnel process \<open>pid\<close>.\<close>

definition cloudflaredExit :: "nat \<Rightarrow> state \<Rightarrow> state" where
  "cloudflaredExit pid s0 =
     (case tunnels s0 pid of
        None \<Rightarrow> s0
      | Some c \<Rightarrow>
          (let s = s0\<lparr>tunnels := (tunnels s0)(pid := Some (c\<lparr>exited := True\<rparr>))\<rparr>
           in if intentionallyStopping s then s
              else if tunnelRestarting s then s\<lparr>tunnelRestarting := False\<rparr>
              else
                (let s = s\<lparr>currentTunnelURL := []\<rparr>;
                     s = send ''tunnel-url'' (PStr []) s;
                     delay = (if rateLimited c then 60000 else 2000)
                 in emit (SetTimeout delay ''startTunnel'')
                      (s\<lparr>restartTimers := Suc (restartTimers s)\<rparr>))))"

section \<open>The gateway process\<close>

text \<open>
  \<^verbatim>\<open>closeGatewayWs\<close>: the retry timer and the socket are always null (see above), so
  what is left is clearing the roster and broadcasting it.
\<close>

definition closeGatewayWs :: "state \<Rightarrow> state" where
  "closeGatewayWs s = send ''sessions-updated'' (PSessions []) s"

text \<open>
  \<^verbatim>\<open>connectGatewayWs(port, token)\<close> calls \<^verbatim>\<open>closeGatewayWs\<close>, discards its two
  arguments (\<^verbatim>\<open>void port; void token;\<close>) and returns.
\<close>

definition connectGatewayWs :: "state \<Rightarrow> state" where
  "connectGatewayWs s = closeGatewayWs s"

definition killGateway :: "state \<Rightarrow> state" where
  "killGateway s = (case gatewayProc s of Some p \<Rightarrow> emit (Kill p) s | None \<Rightarrow> s)"

definition resetPresence :: "state \<Rightarrow> state" where
  "resetPresence s =
     s\<lparr>clientConnectedState := False, clientAwayState := False, lastClientHeartbeat := 0\<rparr>"

definition gatewayEnv :: "Config \<Rightarrow> (string \<times> json) list" where
  "gatewayEnv config =
     [(''OPENCLAW_GATEWAY_TOKEN'', JStr (password config))] @
     (if aiSource config = ''api-key'' \<and> jsTruthy (apiKey config) then
        (if apiProvider config = JStr ''anthropic'' then [(''ANTHROPIC_API_KEY'', apiKey config)]
         else if apiProvider config = JStr ''openai'' then [(''OPENAI_API_KEY'', apiKey config)]
         else [])
      else [])"

text \<open>
  \<^verbatim>\<open>startServer\<close> up to the registration of the handlers and of the 2 s timer
  (\<open>gatewaySettle\<close>); forwarding of the process's output to the log channel is not
  modelled.
\<close>

definition startServer :: "state \<Rightarrow> state" where
  "startServer s0 =
     (let s = emit (Called StartServer) s0;
          config = loadConfig s;
          s = s\<lparr>intentionallyStopping := False\<rparr>
      in case findBinary ''openclaw'' s of
           None \<Rightarrow> send ''error'' (PStr ''openclaw not found. Install with: brew install openclaw-cli'') s
         | Some openclawBin \<Rightarrow>
             (case find (\<lambda>w. Some (ws_id w) = activeWorkspaceId config) (workspaces config) of
                None \<Rightarrow>
                  send ''error'' (PStr ''No active workspace configured. Create a workspace first.'') s
              | Some activeWs \<Rightarrow>
                  if ws_paths activeWs = [] then
                    send ''error'' (PStr ''No active workspace configured. Create a workspace first.'') s
                  else
                    (let s = generateOpenClawConfig config s;
                         s = send ''gateway-log'' (PStr (CHR 0x1B # ''[2J'')) s;
                         s = send ''status'' (PStr ''starting'') s;
                         pid = nextPid s;
                         s = s\<lparr>gatewayProc := Some pid, nextPid := Suc pid,
                               gateways := (gateways s)(pid := Some True)\<rparr>;
                         s = emit (SpawnGateway pid openclawBin config (gatewayEnv config)) s
                     in emit (SetTimeout 2000 ''gatewaySettle'')
                          (s\<lparr>settleTimers := Suc (settleTimers s)\<rparr>))))"

text \<open>The callback of the 2 s timer armed by \<^verbatim>\<open>startServer\<close>.\<close>

definition gatewaySettle :: "state \<Rightarrow> state" where
  "gatewaySettle s =
     (if gatewayProc s \<noteq> None \<and> \<not> intentionallyStopping s then
        connectGatewayWs (send ''status'' (PStr ''running'') s)
      else s)"

definition gatewayError :: "string \<Rightarrow> state \<Rightarrow> state" where
  "gatewayError msg s =
     send ''error'' (PStr (''openclaw error: '' @ msg)) (send ''status'' (PStr ''error'') s)"

text \<open>
  The exit handler of a gateway process; \<open>code\<close> is the exit code, \<open>None\<close> for null
  (the process was ended by a signal).
\<close>

definition gatewayExit :: "int option \<Rightarrow> state \<Rightarrow> state" where
  "gatewayExit code s =
     (if \<not> intentionallyStopping s then
        (let s = send ''status'' (PStr (if code = Some 0 then ''stopped'' else ''error'')) s;
             s = (if code \<noteq> Some 0 then send ''error'' (PExitCode code) s else s);
             s = resetPresence s;
             s = stopClientPresenceMonitor s
         in send ''client-disconnected'' (PBool True) s)
      else s)"

definition stopServer :: "bool \<Rightarrow> state \<Rightarrow> state" where
  "stopServer resetClient s0 =
     (let s = emit (Called (StopServer resetClient)) s0;
          s = s\<lparr>intentionallyStopping := True\<rparr>;
          s = closeGatewayWs s;
          s = killGateway s;
          s = s\<lparr>gatewayProc := None\<rparr>;
          s = send ''status'' (PStr ''stopped'') s
      in if resetClient then
           (let s = resetPresence s;
                s = stopClientPresenceMonitor s
            in send ''client-disconnected'' (PBool True) s)
         else s)"

section \<open>The reverse proxy\<close>

text \<open>
  A request as the handler reads it: method, URL, the \<^verbatim>\<open>authorization\<close> header
  (\<open>None\<close> when absent) and the body. The body is what \<^verbatim>\<open>JSON.parse\<close> makes of it:
  \<open>None\<close> when parsing throws, otherwise the parsed value.
\<close>

record request =
  req_method :: string
  req_url :: string
  req_authorization :: "string option"
  req_body :: "json option"

text \<open>
  Reading the property \<open>k\<close> in a destructuring pattern \<^verbatim>\<open>const { k } = v\<close>, for the
  keys the handlers read and a value \<open>v\<close> that is not null: \<open>None\<close> is
  \<^verbatim>\<open>undefined\<close>. Only an object has such a property. (Destructuring null throws; the
  handlers treat that case before they read a property.)
\<close>

definition jsProp :: "string \<Rightarrow> json \<Rightarrow> json option" where
  "jsProp k v = (case v of JObj kvs \<Rightarrow> map_of kvs k | _ \<Rightarrow> None)"

type_synonym ws_summary = "string \<times> string \<times> string option"

record ai_config_body =
  r_protocolVersion :: "nat option"
  r_aiSource :: string
  r_apiProvider :: json
  r_hasApiKey :: bool
  r_clis :: "bool \<times> bool \<times> bool"
  r_workspaces :: "ws_summary list"
  r_activeWorkspaceId :: "string option"

datatype resp_body =
    NoBody
  | ErrorBody string
  | StatusOk
  | AiConfigBody ai_config_body
  | WorkspacesBody "ws_summary list" "string option"

text \<open>
  What the proxy does with a request: answer it, hand it to the part of an endpoint
  that reads the file system or runs the gateway binary (both past the credential check
  and not modelled further), forward it to the backend port, or splice an upgraded
  connection to the backend port.
\<close>

datatype action =
    Respond nat resp_body
  | ReadHistory string
  | ExecSessionsList string
  | Forward int request
  | Splice int request

definition startProxyServer :: "int \<Rightarrow> int \<Rightarrow> state \<Rightarrow> state" where
  "startProxyServer target pport s =
     (let config = loadConfig s
      in s\<lparr>proxyServer := Some \<lparr>expectedAuth = ''Bearer '' @ password config,
                                 targetPort = target, proxyPort = pport\<rparr>\<rparr>)"

definition stopProxyServer :: "state \<Rightarrow> state" where
  "stopProxyServer s = (if proxyServer s \<noteq> None then s\<lparr>proxyServer := None\<rparr> else s)"

definition startSetupServer :: "state \<Rightarrow> state" where
  "startSetupServer s = s\<lparr>setupHttpServer := True\<rparr>"

definition stopSetupServer :: "state \<Rightarrow> state" where
  "stopSetupServer s = (if setupHttpServer s then s\<lparr>setupHttpServer := False\<rparr> else s)"

definition unauthorized :: action where
  "unauthorized = Respond 401 (ErrorBody ''Unauthorized'')"

definition summary :: "Workspace \<Rightarrow> ws_summary" where
  "summary w = (ws_id w, ws_name w, (case ws_paths w of [] \<Rightarrow> None | p # _ \<Rightarrow> Some p))"

definition clis :: "state \<Rightarrow> bool \<times> bool \<times> bool" where
  "clis s = (findBinary ''claude'' s \<noteq> None, findBinary ''codex'' s \<noteq> None,
             findBinary ''openclaw'' s \<noteq> None)"

text \<open>\<^verbatim>\<open>POST /heartbeat\<close>, past the credential check.\<close>

definition heartbeat :: "int \<Rightarrow> state \<Rightarrow> action \<times> state" where
  "heartbeat now s0 =
     (let s = s0\<lparr>lastClientHeartbeat := now\<rparr>;
          s = (if \<not> clientConnectedState s
               then startClientPresenceMonitor (s\<lparr>clientConnectedState := True\<rparr>) else s);
          s = s\<lparr>clientAwayState := False\<rparr>;
          s = send ''client-connected'' (PBool True) s
      in (Respond 200 StatusOk, s))"

text \<open>\<^verbatim>\<open>GET /global/ai-config\<close>, past the credential check.\<close>

definition getAiConfig :: "state \<Rightarrow> action \<times> state" where
  "getAiConfig s =
     (let cfg = loadConfig s
      in (Respond 200 (AiConfigBody \<lparr>
            r_protocolVersion = Some CLAWDAUNT_PROTOCOL_VERSION,
            r_aiSource = aiSource cfg,
            r_apiProvider = apiProvider cfg,
            r_hasApiKey = jsTruthy (apiKey cfg),
            r_clis = clis s,
            r_workspaces = map summary (workspaces cfg),
            r_activeWorkspaceId = activeWorkspaceId cfg\<rparr>), s))"

text \<open>\<^verbatim>\<open>POST /global/ai-config\<close>, past the credential check: the \<^verbatim>\<open>end\<close> callback.\<close>

definition postAiConfig :: "request \<Rightarrow> state \<Rightarrow> action \<times> state" where
  "postAiConfig req s0 =
     (case req_body req of
        None \<Rightarrow> (Respond 400 (ErrorBody ''Invalid JSON body''), s0)
      | Some JNull \<Rightarrow> (Respond 400 (ErrorBody ''Invalid JSON body''), s0)
      | Some v \<Rightarrow>
          (case jsProp ''aiSource'' v of
             Some (JStr src) \<Rightarrow>
               if src = [] \<or> src \<notin> set [''claude-cli'', ''codex-cli'', ''api-key''] then
                 (Respond 400 (ErrorBody ''Invalid aiSource''), s0)
               else
                 (let cfg = loadConfig s0;
                      cfg = cfg\<lparr>aiSource := src\<rparr>;
                      cfg = (case jsProp ''apiKey'' v of
                               Some k \<Rightarrow> cfg\<lparr>apiKey := k\<rparr> | None \<Rightarrow> cfg);
                      cfg = (case jsProp ''apiProvider'' v of
                               Some p \<Rightarrow> cfg\<lparr>apiProvider := p\<rparr> | None \<Rightarrow> cfg);
                      s = saveConfig cfg s0;
                      s = stopServer False s;
                      s = generateOpenClawConfig cfg s;
                      s = startServer s;
                      s = send ''config-changed'' (PConfig cfg) s
                  in (Respond 200 (AiConfigBody \<lparr>
                        r_protocolVersion = None,
                        r_aiSource = aiSource cfg,
                        r_apiProvider = apiProvider cfg,
                        r_hasApiKey = jsTruthy (apiKey cfg),
                        r_clis = clis s,
                        r_workspaces = map summary (workspaces cfg),
                        r_activeWorkspaceId = activeWorkspaceId cfg\<rparr>), s))
           | _ \<Rightarrow> (Respond 400 (ErrorBody ''Invalid aiSource''), s0)))"

text \<open>\<^verbatim>\<open>GET /global/workspaces\<close>, past the credential check.\<close>

definition getWorkspaces :: "state \<Rightarrow> action \<times> state" where
  "getWorkspaces s =
     (let cfg = loadConfig s
      in (Respond 200 (WorkspacesBody (map summary (workspaces cfg)) (activeWorkspaceId cfg)), s))"

text \<open>\<^verbatim>\<open>POST /global/workspaces/active\<close>, past the credential check.\<close>

definition postActiveWorkspace :: "request \<Rightarrow> state \<Rightarrow> action \<times> state" where
  "postActiveWorkspace req s0 =
     (case req_body req of
        None \<Rightarrow> (Respond 400 (ErrorBody ''Invalid JSON body''), s0)
      | Some JNull \<Rightarrow> (Respond 400 (ErrorBody ''Invalid JSON body''), s0)
      | Some v \<Rightarrow>
          (let cfg = loadConfig s0
           in case jsProp ''workspaceId'' v of
                Some (JStr workspaceId) \<Rightarrow>
                  (case find (\<lambda>w. ws_id w = workspaceId) (workspaces cfg) of
                     None \<Rightarrow> (Respond 404 (ErrorBody ''Workspace not found''), s0)
                   | Some ws \<Rightarrow>
                       (let cfg = cfg\<lparr>activeWorkspaceId := Some workspaceId\<rparr>;
                            s = saveConfig cfg s0;
                            s = stopServer False s;
                            s = startServer s;
                            s = send ''config-changed'' (PConfig cfg) s
                        in (Respond 200 (WorkspacesBody (map summary (workspaces cfg))
                                           (activeWorkspaceId cfg)), s)))
              | _ \<Rightarrow> (Respond 404 (ErrorBody ''Workspace not found''), s0)))"

text \<open>
  The expression \<^verbatim>\<open>/^\/v1\/sessions\/([^/]+)\/history/\<close>: the captured group when the
  URL matches.
\<close>

definition historyMatch :: "string \<Rightarrow> string option" where
  "historyMatch u =
     (if take 13 u = ''/v1/sessions/'' then
        (let rest = drop 13 u;
             key = takeWhile (\<lambda>c. c \<noteq> CHR ''/'') rest;
             after = dropWhile (\<lambda>c. c \<noteq> CHR ''/'') rest
         in if key \<noteq> [] \<and> take 8 after = ''/history'' then Some key else None)
      else None)"

text \<open>\<^verbatim>\<open>GET /v1/sessions\<close>, past the credential check.\<close>

definition getSessions :: "state \<Rightarrow> action \<times> state" where
  "getSessions s =
     (case findBinary ''openclaw'' s of
        None \<Rightarrow> (Respond 500 (ErrorBody ''openclaw binary not found''), s)
      | Some openclawBin \<Rightarrow> (ExecSessionsList openclawBin, s))"

text \<open>
  The request listener of \<^verbatim>\<open>startProxyServer\<close>, in the order of the source. Each
  local endpoint compares the header with \<^verbatim>\<open>expectedAuth\<close> inside its own branch; the
  last branch forwards the request to the target port. The two CORS headers that the
  listener sets on every response are not part of the model; \<open>now\<close> is \<^verbatim>\<open>Date.now()\<close>
  in the heartbeat branch.
\<close>

definition handleRequest :: "proxy_closure \<Rightarrow> request \<Rightarrow> int \<Rightarrow> state \<Rightarrow> action \<times> state" where
  "handleRequest px req now s =
     (let authOk = (req_authorization req = Some (expectedAuth px))
      in if req_method req = ''OPTIONS'' then (Respond 204 NoBody, s)
         else if req_url req = ''/heartbeat'' \<and> req_method req = ''POST'' then
           (if \<not> authOk then (unauthorized, s) else heartbeat now s)
         else if req_url req = ''/global/ai-config'' \<and> req_method req = ''GET'' then
           (if \<not> authOk then (unauthorized, s) else getAiConfig s)
         else if req_url req = ''/global/ai-config'' \<and> req_method req = ''POST'' then
           (if \<not> authOk then (unauthorized, s) else postAiConfig req s)
         else if req_url req = ''/global/workspaces'' \<and> req_method req = ''GET'' then
           (if \<not> authOk then (unauthorized, s) else getWorkspaces s)
         else if req_url req = ''/global/workspaces/active'' \<and> req_method req = ''POST'' then
           (if \<not> authOk then (unauthorized, s) else postActiveWorkspace req s)
         else if historyMatch (req_url req) \<noteq> None \<and> req_method req = ''GET'' then
           (if \<not> authOk then (unauthorized, s)
            else (ReadHistory (the (historyMatch (req_url req))), s))
         else if req_url req = ''/v1/sessions'' \<and> req_method req = ''GET'' then
           (if \<not> authOk then (unauthorized, s) else getSessions s)
         else (Forward (targetPort px) req, s))"

text \<open>
  The \<^verbatim>\<open>upgrade\<close> listener: the request line and headers are replayed on a new
  connection to the target port and the two sockets are piped into each other.
\<close>

definition handleUpgrade :: "proxy_closure \<Rightarrow> request \<Rightarrow> action" where
  "handleUpgrade px req = Splice (targetPort px) req"

section \<open>IPC handlers, application and power events\<close>

definition killCaffeinate :: "state \<Rightarrow> state" where
  "killCaffeinate s = (case caffeinateProc s of Some p \<Rightarrow> emit (Kill p) s | None \<Rightarrow> s)"

text \<open>\<^verbatim>\<open>stopAll\<close>, the shutdown run when the last window closes and before quitting.\<close>

definition stopAll :: "state \<Rightarrow> state" where
  "stopAll s0 =
     (let s = s0\<lparr>intentionallyStopping := True\<rparr>;
          s = (if tunnelHealthInterval s then s\<lparr>tunnelHealthInterval := False\<rparr> else s);
          s = closeGatewayWs s;
          s = stopClientPresenceMonitor s;
          s = stopProxyServer s;
          s = stopSetupServer s;
          s = killCaffeinate s;
          s = s\<lparr>caffeinateProc := None\<rparr>;
          s = killCloudflared s;
          s = s\<lparr>cloudflaredProc := None\<rparr>;
          s = killGateway s;
          s = s\<lparr>gatewayProc := None\<rparr>;
          s = resetPresence s;
          s = send ''status'' (PStr ''stopped'') s;
          s = s\<lparr>currentTunnelURL := []\<rparr>
      in send ''tunnel-url'' (PStr []) s)"

text \<open>A JavaScript string is truthy when it is neither null nor empty.\<close>

definition truthy :: "string option \<Rightarrow> bool" where
  "truthy v = (case v of None \<Rightarrow> False | Some x \<Rightarrow> x \<noteq> [])"

text \<open>\<^verbatim>\<open>path.basename\<close> on a POSIX path: trailing slashes dropped, then the last component.\<close>

definition basename :: "string \<Rightarrow> string" where
  "basename p =
     rev (takeWhile (\<lambda>c. c \<noteq> CHR ''/'') (dropWhile (\<lambda>c. c = CHR ''/'') (rev p)))"

text \<open>\<^verbatim>\<open>config:set-ai-source\<close>.\<close>

definition ipcSetAiSource :: "string \<Rightarrow> string option \<Rightarrow> string option \<Rightarrow> state \<Rightarrow> state" where
  "ipcSetAiSource src key provider s0 =
     (let config = loadConfig s0;
          changed = (aiSource config \<noteq> src
                     \<or> (key \<noteq> None \<and> Some (apiKey config) \<noteq> map_option JStr key)
                     \<or> (provider \<noteq> None
                         \<and> Some (apiProvider config) \<noteq> map_option JStr provider));
          config = config\<lparr>aiSource := src\<rparr>;
          config = (case key of Some k \<Rightarrow> config\<lparr>apiKey := JStr k\<rparr> | None \<Rightarrow> config);
          config = (case provider of
                      Some p \<Rightarrow> config\<lparr>apiProvider := JStr p\<rparr> | None \<Rightarrow> config);
          s = saveConfig config s0
      in if changed then
           (let s = stopServer False s;
                s = generateOpenClawConfig config s
            in startServer s)
         else s)"

text \<open>
  \<^verbatim>\<open>workspace:create\<close>, with a window open: \<open>picked\<close> is the folder chosen in the
  dialog (\<open>None\<close> when cancelled), \<open>newId\<close> the random identifier drawn for the workspace.
\<close>

definition ipcWorkspaceCreate :: "string option \<Rightarrow> string \<Rightarrow> state \<Rightarrow> state" where
  "ipcWorkspaceCreate picked newId s0 =
     (case picked of
        None \<Rightarrow> s0
      | Some dirPath \<Rightarrow>
          (let config = loadConfig s0
           in if \<exists>w \<in> set (workspaces config). dirPath \<in> set (ws_paths w) then s0
              else
                (let ws = \<lparr>ws_id = newId, ws_name = basename dirPath, ws_paths = [dirPath],
                           ws_protected = []\<rparr>;
                     wasEmpty = (workspaces config = []);
                     config = config\<lparr>workspaces := workspaces config @ [ws]\<rparr>;
                     config = (if \<not> truthy (activeWorkspaceId config)
                               then config\<lparr>activeWorkspaceId := Some newId\<rparr> else config);
                     s = saveConfig config s0
                 in if wasEmpty then
                      (let config = config\<lparr>activeWorkspaceId := Some newId\<rparr>;
                           s = saveConfig config s;
                           s = stopSetupServer s
                       in startServer s)
                    else s)))"

definition ipcWorkspaceRename :: "string \<Rightarrow> string \<Rightarrow> state \<Rightarrow> state" where
  "ipcWorkspaceRename wid newName s =
     (let config = loadConfig s
      in if \<exists>w \<in> set (workspaces config). ws_id w = wid then
           saveConfig (config\<lparr>workspaces :=
             (let i = length (takeWhile (\<lambda>w. ws_id w \<noteq> wid) (workspaces config))
              in (workspaces config)[i := (workspaces config ! i)\<lparr>ws_name := newName\<rparr>])\<rparr>) s
         else s)"

definition ipcWorkspaceDelete :: "string \<Rightarrow> state \<Rightarrow> state" where
  "ipcWorkspaceDelete wid s0 =
     (let config = loadConfig s0;
          config = config\<lparr>workspaces := filter (\<lambda>w. ws_id w \<noteq> wid) (workspaces config)\<rparr>
      in if activeWorkspaceId config = Some wid then
           (let config = config\<lparr>activeWorkspaceId :=
                           (case workspaces config of [] \<Rightarrow> None | w # _ \<Rightarrow> Some (ws_id w))\<rparr>;
                s = stopServer (\<not> truthy (activeWorkspaceId config)) s0;
                s = (if truthy (activeWorkspaceId config)
                     then startServer (saveConfig config s) else s)
            in saveConfig config s)
         else saveConfig config s0)"

definition ipcWorkspaceSetActive :: "string \<Rightarrow> state \<Rightarrow> state" where
  "ipcWorkspaceSetActive wid s0 =
     (let config = loadConfig s0
      in case find (\<lambda>w. ws_id w = wid) (workspaces config) of
           None \<Rightarrow> s0
         | Some ws \<Rightarrow>
             (let config = config\<lparr>activeWorkspaceId := Some wid\<rparr>;
                  s = saveConfig config s0;
                  s = stopServer False s
              in startServer s))"

text \<open>
  \<^verbatim>\<open>workspace:add-protected\<close> and \<^verbatim>\<open>workspace:remove-protected\<close> rewrite the
  protected paths of one workspace in the configuration file; \<open>picked\<close> is the
  selection of the dialog.
\<close>

definition mapWorkspace :: "string \<Rightarrow> (Workspace \<Rightarrow> Workspace) \<Rightarrow> Config \<Rightarrow> Config" where
  "mapWorkspace wid f config =
     config\<lparr>workspaces :=
       (let i = length (takeWhile (\<lambda>w. ws_id w \<noteq> wid) (workspaces config))
        in if i < length (workspaces config)
           then (workspaces config)[i := f (workspaces config ! i)] else workspaces config)\<rparr>"

definition ipcAddProtected :: "string \<Rightarrow> string list option \<Rightarrow> state \<Rightarrow> state" where
  "ipcAddProtected wid picked s =
     (let config = loadConfig s
      in if \<not> (\<exists>w \<in> set (workspaces config). ws_id w = wid) then s
         else case picked of
                None \<Rightarrow> s
              | Some filePaths \<Rightarrow>
                  if filePaths = [] then s
                  else saveConfig (mapWorkspace wid
                         (\<lambda>w. w\<lparr>ws_protected := ws_protected w @
                                  filter (\<lambda>p. p \<notin> set (ws_protected w)) filePaths\<rparr>) config) s)"

definition ipcRemoveProtected :: "string \<Rightarrow> string \<Rightarrow> state \<Rightarrow> state" where
  "ipcRemoveProtected wid protectedPath s =
     (let config = loadConfig s
      in if \<not> (\<exists>w \<in> set (workspaces config). ws_id w = wid) then s
         else saveConfig (mapWorkspace wid
                (\<lambda>w. w\<lparr>ws_protected := filter (\<lambda>p. p \<noteq> protectedPath) (ws_protected w)\<rparr>) config) s)"

text \<open>The \<^verbatim>\<open>ready\<close> handler of the application.\<close>

definition appReady :: "state \<Rightarrow> state" where
  "appReady s0 =
     (let pid = nextPid s0;
          s = emit (SpawnCaffeinate pid) (s0\<lparr>caffeinateProc := Some pid, nextPid := Suc pid\<rparr>);
          config = loadConfig s;
          s = startProxyServer (port config) (port config + 1) s;
          s = startTunnel s
      in if workspaces config \<noteq> [] \<and> truthy (activeWorkspaceId config)
         then startServer s else startSetupServer s)"

definition onSuspend :: "state \<Rightarrow> state" where
  "onSuspend s = stopClientPresenceMonitor s"

definition onResume :: "int \<Rightarrow> state \<Rightarrow> state" where
  "onResume now s =
     (if clientConnectedState s
      then startClientPresenceMonitor (s\<lparr>lastClientHeartbeat := now\<rparr>) else s)"

section \<open>The event loop\<close>

text \<open>
  One constructor per callback. An event is delivered only when the source can run
  the callback: a request needs the proxy to listen, a tick needs its interval, a
  timer must be pending, the result of a probe needs a probe that is awaited, a process
  event needs that process to have been spawned (and an exit is delivered once).
  Otherwise the step leaves the state unchanged. The asynchronous callback of the
  health interval is two events: \<open>HealthTick\<close> runs it up to its \<^verbatim>\<open>await\<close>, and
  \<open>ProbeResult m ok\<close> is the later turn in which a probe awaited by the closure \<open>m\<close>
  has resolved to \<open>ok\<close>; any other event can be delivered between the two.
\<close>

datatype event =
    AppReady
  | Http request int
  | Upgrade request
  | PresenceTick int
  | HealthTick
  | ProbeResult nat bool
  | TunnelData nat string int "string option"
  | DnsTimer nat int
  | DnsResult nat bool
  | TunnelError nat string
  | TunnelExit nat
  | RestartTimer
  | GatewaySettle
  | GatewayError nat string
  | GatewayExit nat "int option"
  | CaffeinateError
  | IpcServerStart
  | IpcServerStop
  | IpcSetAiSource string "string option" "string option"
  | IpcWorkspaceCreate "string option" string
  | IpcWorkspaceRename string string
  | IpcWorkspaceDelete string
  | IpcWorkspaceSetActive string
  | IpcAddProtected string "string list option"
  | IpcRemoveProtected string string
  | Suspend
  | Resume int
  | WindowAllClosed
  | BeforeQuit
  | FileSystem "string \<Rightarrow> string option"

fun step :: "event \<Rightarrow> state \<Rightarrow> state" where
  "step AppReady s = appReady s"
| "step (Http req now) s =
     (case proxyServer s of None \<Rightarrow> s | Some px \<Rightarrow> snd (handleRequest px req now s))"
| "step (Upgrade req) s = s"
| "step (PresenceTick now) s = (if clientPresenceInterval s then presenceTick now s else s)"
| "step HealthTick s = (if tunnelHealthInterval s then healthTick s else s)"
| "step (ProbeResult m ok) s =
     (if probes s m > 0
      then healthTickResume m ok (s\<lparr>probes := (probes s)(m := probes s m - 1)\<rparr>) else s)"
| "step (TunnelData pid text now xn) s = onData pid text now xn s"
| "step (DnsTimer pid now) s =
     (case tunnels s pid of
        None \<Rightarrow> s
      | Some c \<Rightarrow>
          if dnsTimer c
          then waitForDns pid now (s\<lparr>tunnels := (tunnels s)(pid := Some (c\<lparr>dnsTimer := False\<rparr>))\<rparr>)
          else s)"
| "step (DnsResult pid ok) s =
     (case tunnels s pid of
        None \<Rightarrow> s
      | Some c \<Rightarrow> if resolving c then dnsCallback pid (\<not> ok) s else s)"
| "step (TunnelError pid msg) s =
     (case tunnels s pid of None \<Rightarrow> s | Some c \<Rightarrow> cloudflaredError msg s)"
| "step (TunnelExit pid) s =
     (case tunnels s pid of
        None \<Rightarrow> s
      | Some c \<Rightarrow> if exited c then s else cloudflaredExit pid s)"
| "step RestartTimer s =
     (if restartTimers s > 0 then startTunnel (s\<lparr>restartTimers := restartTimers s - 1\<rparr>) else s)"
| "step GatewaySettle s =
     (if settleTimers s > 0 then gatewaySettle (s\<lparr>settleTimers := settleTimers s - 1\<rparr>) else s)"
| "step (GatewayError pid msg) s =
     (if gateways s pid \<noteq> None then gatewayError msg s else s)"
| "step (GatewayExit pid code) s =
     (if gateways s pid = Some True
      then gatewayExit code (s\<lparr>gateways := (gateways s)(pid := Some False)\<rparr>) else s)"
| "step CaffeinateError s = s\<lparr>caffeinateProc := None\<rparr>"
| "step IpcServerStart s = startServer s"
| "step IpcServerStop s = stopServer True s"
| "step (IpcSetAiSource src key provider) s = ipcSetAiSource src key provider s"
| "step (IpcWorkspaceCreate picked newId) s = ipcWorkspaceCreate picked newId s"
| "step (IpcWorkspaceRename wid newName) s = ipcWorkspaceRename wid newName s"
| "step (IpcWorkspaceDelete wid) s = ipcWorkspaceDelete wid s"
| "step (IpcWorkspaceSetActive wid) s = ipcWorkspaceSetActive wid s"
| "step (IpcAddProtected wid picked) s = ipcAddProtected wid picked s"
| "step (IpcRemoveProtected wid protectedPath) s = ipcRemoveProtected wid protectedPath s"
| "step Suspend s = onSuspend s"
| "step (Resume now) s = onResume now s"
| "step WindowAllClosed s = stopAll s"
| "step BeforeQuit s = stopAll s"
| "step (FileSystem b) s = s\<lparr>bins := b\<rparr>"

fun run :: "event list \<Rightarrow> state \<Rightarrow> state" where
  "run [] s = s"
| "run (e # es) s = run es (step e s)"

section \<open>Observations used in the properties\<close>

text \<open>The presence state: connected flag, away flag, last heartbeat, and whether the
  2 s interval exists.\<close>

definition pres :: "state \<Rightarrow> bool \<times> bool \<times> int \<times> bool" where
  "pres s = (clientConnectedState s, clientAwayState s, lastClientHeartbeat s, clientPresenceInterval s)"

text \<open>
  A concrete installation for the examples: one workspace, the tunnel and gateway
  binaries on the search path, and the requests of a client that knows the secret.
\<close>

definition demoConfig :: Config where
  "demoConfig = \<lparr>port = 4096, password = ''s3cret'',
     workspaces = [\<lparr>ws_id = ''w1'', ws_name = ''proj'', ws_paths = [''/home/u/proj''],
                    ws_protected = []\<rparr>],
     activeWorkspaceId = Some ''w1'', aiSource = ''claude-cli'', apiKey = JStr [],
     apiProvider = JStr ''anthropic''\<rparr>"

definition demoBins :: "string \<Rightarrow> string option" where
  "demoBins = (\<lambda>n. if n = ''cloudflared'' then Some ''/opt/homebrew/bin/cloudflared''
                     else if n = ''openclaw'' then Some ''/opt/homebrew/bin/openclaw'' else None)"

definition heartbeatReq :: request where
  "heartbeatReq = \<lparr>req_method = ''POST'', req_url = ''/heartbeat'',
                    req_authorization = Some ''Bearer s3cret'', req_body = None\<rparr>"

definition awayRun :: "event list" where
  "awayRun = [AppReady, Http heartbeatReq 1000, PresenceTick 3000, PresenceTick 33000]"


text \<open>The closure of the proxy of the example installation, and its state after start-up.\<close>

definition demoProxy :: proxy_closure where
  "demoProxy = \<lparr>expectedAuth = ''Bearer s3cret'', targetPort = 4096, proxyPort = 4097\<rparr>"

definition bootState :: state where
  "bootState = run [AppReady] (initial demoConfig demoBins)"


definition timeoutRun :: "event list" where
  "timeoutRun = [AppReady, Http heartbeatReq 1000, PresenceTick 122000]"

text \<open>The ghost entries of the log: the calls of \<^verbatim>\<open>startTunnel\<close>, \<^verbatim>\<open>startServer\<close> and
  \<^verbatim>\<open>stopServer\<close>, in order.\<close>

fun isCall :: "effect \<Rightarrow> bool" where
  "isCall (Called c) = True"
| "isCall _ = False"

definition calls :: "state \<Rightarrow> effect list" where
  "calls s = filter isCall (trace s)"

text \<open>The two requests of the round trip, and a run in which the gateway killed by the
  restart (process 2) exits afterwards.\<close>

definition aiConfigPost :: request where
  "aiConfigPost = \<lparr>req_method = ''POST'', req_url = ''/global/ai-config'',
     req_authorization = Some ''Bearer s3cret'',
     req_body = Some (JObj [(''aiSource'', JStr ''api-key''), (''apiKey'', JStr ''k''),
                            (''apiProvider'', JStr ''openai'')])\<rparr>"

definition aiConfigGet :: request where
  "aiConfigGet = \<lparr>req_method = ''GET'', req_url = ''/global/ai-config'',
     req_authorization = Some ''Bearer s3cret'', req_body = None\<rparr>"

definition restartRun :: "event list" where
  "restartRun = [AppReady, Http heartbeatReq 1000, Http aiConfigPost 2000, GatewayExit 2 None]"

text \<open>
  The tunnel side of the state: the closures of the tunnel processes, the pending
  restart timers, the published URL, the number of calls of \<^verbatim>\<open>startTunnel\<close>, and the
  variables of the health monitor.
\<close>

definition startTunnelCalls :: "state \<Rightarrow> nat" where
  "startTunnelCalls s = length (filter (\<lambda>e. e = Called StartTunnel) (trace s))"

definition tside :: "state \<Rightarrow> (nat \<Rightarrow> tunnel_closure option) \<times> nat \<times> string \<times> nat
                       \<times> (nat \<times> (nat \<Rightarrow> nat) \<times> (nat \<Rightarrow> nat))
                       \<times> health \<times> bool \<times> bool \<times> nat option" where
  "tside s = (tunnels s, restartTimers s, currentTunnelURL s, startTunnelCalls s,
              (monitorId s, failCounts s, probes s),
              tunnelHealthStatus s, tunnelHealthInterval s, tunnelRestarting s, cloudflaredProc s)"

text \<open>The routes that the request listener answers itself.\<close>

definition terminatedLocally :: "request \<Rightarrow> bool" where
  "terminatedLocally req =
     ((req_url req = ''/heartbeat'' \<and> req_method req = ''POST'')
      \<or> (req_url req = ''/global/ai-config'' \<and> req_method req = ''GET'')
      \<or> (req_url req = ''/global/ai-config'' \<and> req_method req = ''POST'')
      \<or> (req_url req = ''/global/workspaces'' \<and> req_method req = ''GET'')
      \<or> (req_url req = ''/global/workspaces/active'' \<and> req_method req = ''POST'')
      \<or> (historyMatch (req_url req) \<noteq> None \<and> req_method req = ''GET'')
      \<or> (req_url req = ''/v1/sessions'' \<and> req_method req = ''GET''))"

text \<open>Requests without the credential: one for the backend, one for a local endpoint.\<close>

definition passThroughReq :: request where
  "passThroughReq = \<lparr>req_method = ''POST'', req_url = ''/v1/chat/completions'',
                      req_authorization = None, req_body = None\<rparr>"

definition badHeartbeatReq :: request where
  "badHeartbeatReq = \<lparr>req_method = ''POST'', req_url = ''/heartbeat'',
                       req_authorization = Some ''Bearer guess'', req_body = None\<rparr>"

text \<open>The events that can change the tunnel side: tunnel and monitor callbacks, the
  start-up and the shutdown.\<close>

fun tunnelEvent :: "event \<Rightarrow> bool" where
  "tunnelEvent AppReady = True"
| "tunnelEvent HealthTick = True"
| "tunnelEvent (ProbeResult m ok) = True"
| "tunnelEvent (TunnelData pid text now xn) = True"
| "tunnelEvent (DnsTimer pid now) = True"
| "tunnelEvent (DnsResult pid ok) = True"
| "tunnelEvent (TunnelExit pid) = True"
| "tunnelEvent RestartTimer = True"
| "tunnelEvent WindowAllClosed = True"
| "tunnelEvent BeforeQuit = True"
| "tunnelEvent _ = False"

text \<open>A file system without any of the binaries, and events that follow a start-up on it.\<close>

definition noBins :: "string \<Rightarrow> string option" where
  "noBins = (\<lambda>n. None)"

definition laterEvents :: "event list" where
  "laterEvents = [FileSystem demoBins, IpcServerStart, HealthTick, ProbeResult 0 False, RestartTimer,
                  Http heartbeatReq 1000, TunnelExit 1]"

text \<open>The reachability probes in the log, and how often the empty URL has been sent.\<close>

fun isProbe :: "effect \<Rightarrow> bool" where
  "isProbe (HttpsGet u a) = True"
| "isProbe _ = False"

definition urlCleared :: "state \<Rightarrow> nat" where
  "urlCleared s = length (filter (\<lambda>e. e = Send ''tunnel-url'' (PStr [])) (trace s))"

text \<open>
  A run of the example installation in which the tunnel reports a URL at 5000 ms and
  the first DNS query succeeds; processes 0, 1, 2 are caffeinate, the tunnel and the
  gateway.
\<close>

definition publishRun :: "event list" where
  "publishRun = [AppReady,
     TunnelData 1 ''INF |  https://quick-fox-42.trycloudflare.com  |'' 5000 None,
     DnsResult 1 True]"

definition publishedState :: state where
  "publishedState = run publishRun (initial demoConfig demoBins)"





text \<open>
  Three failed checks after the URL of the example run was published (the closure of
  the monitor is number 1), where the tunnel process exits while the third probe is
  awaited; then the restart timer fires.
\<close>

definition raceRun :: "event list" where
  "raceRun = [HealthTick, ProbeResult 1 False, HealthTick, ProbeResult 1 False,
              HealthTick, TunnelExit 1, ProbeResult 1 False, RestartTimer]"





section \<open>Frame lemmas: what leaves the presence state alone\<close>

lemmas small_defs = emit_def send_def saveConfig_def findBinary_def
  startClientPresenceMonitor_def stopClientPresenceMonitor_def
  setTunnelHealth_def killCloudflared_def closeGatewayWs_def connectGatewayWs_def
  killGateway_def resetPresence_def startProxyServer_def stopProxyServer_def
  startSetupServer_def stopSetupServer_def generateOpenClawConfig_def

lemma pres_fields:
  assumes "pres a = pres b"
  shows "clientConnectedState a = clientConnectedState b"
    and "clientAwayState a = clientAwayState b"
    and "lastClientHeartbeat a = lastClientHeartbeat b"
    and "clientPresenceInterval a = clientPresenceInterval b"
  using assms by (simp_all add: pres_def)

lemma pres_prim [simp]:
  "pres (emit e s) = pres s"
  "pres (send ch d s) = pres s"
  "pres (saveConfig c s) = pres s"
  "pres (generateOpenClawConfig c s) = pres s"
  "pres (setTunnelHealth h s) = pres s"
  "pres (killCloudflared s) = pres s"
  "pres (killGateway s) = pres s"
  "pres (closeGatewayWs s) = pres s"
  "pres (connectGatewayWs s) = pres s"
  "pres (startProxyServer a b s) = pres s"
  "pres (stopProxyServer s) = pres s"
  "pres (startSetupServer s) = pres s"
  "pres (stopSetupServer s) = pres s"
  by (simp_all add: pres_def small_defs Let_def split: option.splits)

lemma pres_upd [simp]:
  "pres (s\<lparr>gatewayProc := x1\<rparr>) = pres s"
  "pres (s\<lparr>cloudflaredProc := x2\<rparr>) = pres s"
  "pres (s\<lparr>setupHttpServer := x3\<rparr>) = pres s"
  "pres (s\<lparr>proxyServer := x4\<rparr>) = pres s"
  "pres (s\<lparr>intentionallyStopping := x5\<rparr>) = pres s"
  "pres (s\<lparr>tunnelRestarting := x6\<rparr>) = pres s"
  "pres (s\<lparr>currentTunnelURL := x7\<rparr>) = pres s"
  "pres (s\<lparr>tunnelHealthInterval := x8\<rparr>) = pres s"
  "pres (s\<lparr>monitorId := x9\<rparr>) = pres s"
  "pres (s\<lparr>failCounts := x21\<rparr>) = pres s"
  "pres (s\<lparr>probes := x22\<rparr>) = pres s"
  "pres (s\<lparr>tunnelHealthStatus := x10\<rparr>) = pres s"
  "pres (s\<lparr>caffeinateProc := x11\<rparr>) = pres s"
  "pres (s\<lparr>disk := x12\<rparr>) = pres s"
  "pres (s\<lparr>bins := x13\<rparr>) = pres s"
  "pres (s\<lparr>openclawJson := x14\<rparr>) = pres s"
  "pres (s\<lparr>nextPid := x15\<rparr>) = pres s"
  "pres (s\<lparr>tunnels := x16\<rparr>) = pres s"
  "pres (s\<lparr>gateways := x17\<rparr>) = pres s"
  "pres (s\<lparr>restartTimers := x18\<rparr>) = pres s"
  "pres (s\<lparr>settleTimers := x19\<rparr>) = pres s"
  "pres (s\<lparr>trace := x20\<rparr>) = pres s"
  by (simp_all add: pres_def)

lemma pres_startTunnel [simp]: "pres (startTunnel s) = pres s"
  by (simp add: startTunnel_def Let_def split: option.splits)
lemma pres_startServer [simp]: "pres (startServer s) = pres s"
  by (simp add: startServer_def Let_def split: option.splits)
lemma pres_stopServer [simp]:
  "pres (stopServer r s) = (if r then (False, False, 0, False) else pres s)"
  by (simp add: stopServer_def Let_def) (simp add: pres_def small_defs)
lemma pres_startTunnelHealthMonitor [simp]: "pres (startTunnelHealthMonitor s) = pres s"
  by (simp add: startTunnelHealthMonitor_def Let_def)
lemma pres_healthTick [simp]: "pres (healthTick s) = pres s"
  by (simp add: healthTick_def Let_def)
lemma pres_healthTickResume [simp]: "pres (healthTickResume m ok s) = pres s"
  by (simp add: healthTickResume_def Let_def)
lemma pres_waitForDns [simp]: "pres (waitForDns pid now s) = pres s"
  by (simp add: waitForDns_def split: option.splits)
lemma pres_dnsCallback [simp]: "pres (dnsCallback pid err s) = pres s"
  by (simp add: dnsCallback_def Let_def split: option.splits)
lemma pres_onData [simp]: "pres (onData pid chunk now xn s) = pres s"
  by (simp add: onData_def split: option.splits)
lemma pres_cloudflaredError [simp]: "pres (cloudflaredError m s) = pres s"
  by (simp add: cloudflaredError_def)
lemma pres_cloudflaredExit [simp]: "pres (cloudflaredExit pid s) = pres s"
  by (simp add: cloudflaredExit_def Let_def split: option.splits)
lemma pres_gatewaySettle [simp]: "pres (gatewaySettle s) = pres s"
  by (simp add: gatewaySettle_def)
lemma pres_gatewayError [simp]: "pres (gatewayError m s) = pres s"
  by (simp add: gatewayError_def)
lemma pres_gatewayExit [simp]:
  "pres (gatewayExit code s) = (if intentionallyStopping s then pres s else (False, False, 0, False))"
  by (simp add: gatewayExit_def Let_def) (simp add: pres_def small_defs)
lemma pres_kill [simp]: "pres (killCaffeinate s) = pres s"
  by (simp add: killCaffeinate_def split: option.splits)

lemmas presence_interval_prim = pres_prim[THEN pres_fields(4)] pres_upd[THEN pres_fields(4)]
  pres_kill[THEN pres_fields(4)]

lemma pres_stopAll [simp]: "pres (stopAll s) = (False, False, 0, False)"
proof -
  have r: "\<And>t. pres (resetPresence t) = (False, False, 0, clientPresenceInterval t)"
    by (simp add: pres_def resetPresence_def)
  have m: "\<And>t. \<not> clientPresenceInterval (stopClientPresenceMonitor t)"
    by (simp add: stopClientPresenceMonitor_def)
  show ?thesis by (simp add: stopAll_def Let_def r m presence_interval_prim)
qed
lemma pres_ipcSetAiSource [simp]: "pres (ipcSetAiSource a k p s) = pres s"
  by (simp add: ipcSetAiSource_def Let_def)
lemma pres_ipcWorkspaceCreate [simp]: "pres (ipcWorkspaceCreate d n s) = pres s"
  by (simp add: ipcWorkspaceCreate_def Let_def split: option.splits)
lemma pres_ipcWorkspaceRename [simp]: "pres (ipcWorkspaceRename w n s) = pres s"
  by (simp add: ipcWorkspaceRename_def Let_def)
lemma pres_ipcWorkspaceDelete:
  "pres (ipcWorkspaceDelete w s) = pres s \<or> pres (ipcWorkspaceDelete w s) = (False, False, 0, False)"
  by (simp add: ipcWorkspaceDelete_def Let_def)
lemma pres_ipcWorkspaceSetActive [simp]: "pres (ipcWorkspaceSetActive w s) = pres s"
  by (simp add: ipcWorkspaceSetActive_def Let_def split: option.splits)
lemma pres_ipcAddProtected [simp]: "pres (ipcAddProtected w p s) = pres s"
  by (simp add: ipcAddProtected_def Let_def split: option.splits)
lemma pres_ipcRemoveProtected [simp]: "pres (ipcRemoveProtected w p s) = pres s"
  by (simp add: ipcRemoveProtected_def Let_def)
lemma pres_appReady [simp]: "pres (appReady s) = pres s"
  by (simp add: appReady_def Let_def)
lemma pres_postAiConfig [simp]: "pres (snd (postAiConfig req s)) = pres s"
  by (simp add: postAiConfig_def Let_def split: option.splits json.splits)
lemma pres_postActiveWorkspace [simp]: "pres (snd (postActiveWorkspace req s)) = pres s"
  by (simp add: postActiveWorkspace_def Let_def split: option.splits json.splits)
lemma pres_heartbeat [simp]: "pres (snd (heartbeat now s)) = (True, False, now, clientConnectedState s \<longrightarrow> clientPresenceInterval s)"
  by (simp add: heartbeat_def Let_def pres_def small_defs)
lemma pres_handleRequest:
  "pres (snd (handleRequest px req now s)) =
     (if req_url req = ''/heartbeat'' \<and> req_method req = ''POST''
         \<and> req_authorization req = Some (expectedAuth px)
      then (True, False, now, clientConnectedState s \<longrightarrow> clientPresenceInterval s) else pres s)"
  by (simp add: handleRequest_def Let_def getAiConfig_def getWorkspaces_def getSessions_def
       split: option.splits)

section \<open>Presence: the away flag implies the connected flag\<close>

lemma pres_presenceTick:
  "(fst (pres (presenceTick now s)) = fst (pres s)
      \<and> fst (snd (pres (presenceTick now s))) = fst (snd (pres s)))
   \<or> \<not> fst (snd (pres (presenceTick now s)))
   \<or> (CLIENT_AWAY_TIMEOUT < now - lastClientHeartbeat s \<and> fst (pres s)
        \<and> fst (pres (presenceTick now s)))"
  by (simp add: presenceTick_def Let_def pres_def send_def emit_def)

text \<open>
  Every step either keeps both flags, or ends with the away flag cleared, or is the
  30 s branch of the presence poll run on a connected client.
\<close>

lemma pres_step:
  "(fst (pres (step e s)) = fst (pres s) \<and> fst (snd (pres (step e s))) = fst (snd (pres s)))
   \<or> \<not> fst (snd (pres (step e s)))
   \<or> ((\<exists>now. e = PresenceTick now \<and> CLIENT_AWAY_TIMEOUT < now - lastClientHeartbeat s)
        \<and> fst (pres s) \<and> fst (pres (step e s)))"
proof (cases e)
  case (PresenceTick now)
  then show ?thesis using pres_presenceTick[of now s] by auto
next
  case (Http req now)
  then show ?thesis by (simp add: pres_handleRequest split: option.splits)
next
  case (IpcWorkspaceDelete w)
  then show ?thesis using pres_ipcWorkspaceDelete[of w s] by auto
next
  case (Resume now)
  then show ?thesis by (simp add: onResume_def pres_def startClientPresenceMonitor_def)
next
  case Suspend
  then show ?thesis by (simp add: onSuspend_def pres_def stopClientPresenceMonitor_def)
qed (simp_all split: option.splits)

lemma step_away_inv:
  assumes "clientAwayState s \<longrightarrow> clientConnectedState s"
  shows "clientAwayState (step e s) \<longrightarrow> clientConnectedState (step e s)"
  using pres_step[of e s] assms by (auto simp: pres_def)

lemma run_away_inv:
  "(clientAwayState s \<longrightarrow> clientConnectedState s) \<Longrightarrow>
   clientAwayState (run evs s) \<longrightarrow> clientConnectedState (run evs s)"
  by (induction evs arbitrary: s) (simp_all add: step_away_inv)

text \<open>
  Claim C4. In every state reachable from the initial one by any sequence of events,
  the away flag implies the connected flag. The only step that sets the away flag is
  the presence poll's 30 s branch, and it runs on a connected client and leaves it
  connected; every step that clears the connected flag (the 120 s timeout, an unexpected
  gateway exit, a stop with presence reset, the shutdown) leaves the away flag cleared.
\<close>

theorem away_implies_connected:
  "(clientAwayState (run evs (initial cfg b)) \<longrightarrow> clientConnectedState (run evs (initial cfg b)))
   \<and> (\<forall>e s. \<not> clientAwayState s \<and> clientAwayState (step e s) \<longrightarrow>
         (\<exists>now. e = PresenceTick now \<and> CLIENT_AWAY_TIMEOUT < now - lastClientHeartbeat s)
         \<and> clientConnectedState s \<and> clientConnectedState (step e s))
   \<and> (\<forall>e s. clientConnectedState s \<and> \<not> clientConnectedState (step e s) \<longrightarrow>
         \<not> clientAwayState (step e s))"
proof (intro conjI allI)
  show "clientAwayState (run evs (initial cfg b)) \<longrightarrow> clientConnectedState (run evs (initial cfg b))"
    by (rule run_away_inv) (simp add: initial_def)
next
  fix e s
  show "\<not> clientAwayState s \<and> clientAwayState (step e s) \<longrightarrow>
         (\<exists>now. e = PresenceTick now \<and> CLIENT_AWAY_TIMEOUT < now - lastClientHeartbeat s)
         \<and> clientConnectedState s \<and> clientConnectedState (step e s)"
    using pres_step[of e s] by (auto simp: pres_def)
next
  fix e s
  show "clientConnectedState s \<and> \<not> clientConnectedState (step e s) \<longrightarrow>
         \<not> clientAwayState (step e s)"
    using pres_step[of e s] by (auto simp: pres_def)
qed

text \<open>
  The invariant at a state where the away flag is set: a heartbeat at 1000 ms, then
  polls at 3000 ms and 33000 ms.
\<close>

theorem away_implies_connected_witness:
  "clientAwayState (run awayRun (initial demoConfig demoBins))
   \<and> clientConnectedState (run awayRun (initial demoConfig demoBins))"
proof -
  have a: "clientAwayState (run awayRun (initial demoConfig demoBins))" by code_simp
  from away_implies_connected[of awayRun demoConfig demoBins] a show ?thesis by blast
qed

section \<open>Presence: heartbeat, away and disconnect\<close>










section \<open>Presence: the poll after the 120 s timeout\<close>

text \<open>
  Where the connected flag is cleared. The 120 s branch of the poll clears the flag and
  leaves the interval as it was, so that later polls still run (each returns at its
  first guard, changing nothing). The other three places that clear the flag, the
  unexpected gateway exit, the stop with presence reset and the shutdown, all call
  \<^verbatim>\<open>stopClientPresenceMonitor\<close>, which removes the interval.
\<close>

lemma disconnect_paths_and_interval:
  "(\<not> clientConnectedState s \<longrightarrow> step (PresenceTick now) s = s)
   \<and> (clientConnectedState s \<and> 0 < lastClientHeartbeat s
        \<and> CLIENT_DISCONNECT_TIMEOUT < now - lastClientHeartbeat s \<longrightarrow>
        \<not> clientConnectedState (presenceTick now s)
        \<and> clientPresenceInterval (presenceTick now s) = clientPresenceInterval s)
   \<and> (\<not> intentionallyStopping s \<longrightarrow>
        \<not> clientConnectedState (gatewayExit code s) \<and> \<not> clientPresenceInterval (gatewayExit code s))
   \<and> \<not> clientConnectedState (stopServer True s) \<and> \<not> clientPresenceInterval (stopServer True s)
   \<and> \<not> clientConnectedState (stopAll s) \<and> \<not> clientPresenceInterval (stopAll s)"
proof -
  have 1: "\<not> clientConnectedState s \<longrightarrow> step (PresenceTick now) s = s"
    by (simp add: presenceTick_def)
  have 2: "clientConnectedState s \<and> 0 < lastClientHeartbeat s
        \<and> CLIENT_DISCONNECT_TIMEOUT < now - lastClientHeartbeat s \<longrightarrow>
        \<not> clientConnectedState (presenceTick now s)
        \<and> clientPresenceInterval (presenceTick now s) = clientPresenceInterval s"
    by (simp add: presenceTick_def Let_def send_def emit_def)
  have 3: "\<not> intentionallyStopping s \<longrightarrow>
        \<not> clientConnectedState (gatewayExit code s) \<and> \<not> clientPresenceInterval (gatewayExit code s)"
    using pres_gatewayExit[of code s] by (auto simp: pres_def)
  have 4: "\<not> clientConnectedState (stopServer True s) \<and> \<not> clientPresenceInterval (stopServer True s)"
    using pres_stopServer[of True s] by (auto simp: pres_def)
  have 5: "\<not> clientConnectedState (stopAll s) \<and> \<not> clientPresenceInterval (stopAll s)"
    using pres_stopAll[of s] by (auto simp: pres_def)
  from 1 2 3 4 5 show ?thesis by blast
qed

text \<open>
  Claim C7 fails on the code. On the example installation, after start-up, a heartbeat
  at 1000 ms and a poll at 122000 ms (the 120 s disconnect transition), no client is
  marked connected and the 2 s interval still exists: the transition has sent the
  disconnected event and has not stopped the poll.
\<close>

theorem timer_survives_120s_disconnect:
  "\<not> clientConnectedState (run timeoutRun (initial demoConfig demoBins))
   \<and> clientPresenceInterval (run timeoutRun (initial demoConfig demoBins))
   \<and> last (trace (run timeoutRun (initial demoConfig demoBins)))
       = Send ''client-disconnected'' (PBool True)"
  by code_simp

section \<open>The AI configuration endpoint\<close>

lemma calls_prim [simp]:
  "calls (emit e s) = calls s @ (if isCall e then [e] else [])"
  "calls (send ch d s) = calls s"
  "calls (saveConfig c s) = calls s"
  "calls (generateOpenClawConfig c s) = calls s"
  "calls (closeGatewayWs s) = calls s"
  "calls (killGateway s) = calls s"
  by (simp_all add: calls_def small_defs Let_def split: option.splits)

lemma calls_stopServer [simp]: "calls (stopServer r s) = calls s @ [Called (StopServer r)]"
  by (simp add: calls_def stopServer_def small_defs Let_def split: option.splits)

lemma calls_startServer [simp]: "calls (startServer s) = calls s @ [Called StartServer]"
  by (simp add: calls_def startServer_def small_defs Let_def split: option.splits)

lemma disk_frames [simp]:
  "disk (stopServer r s) = disk s"
  "disk (startServer s) = disk s"
  "disk (generateOpenClawConfig c s) = disk s"
  "disk (send ch d s) = disk s"
  by (simp_all add: stopServer_def startServer_def small_defs Let_def split: option.splits)


lemma postAiConfig_accepted:
  assumes "req_body req = Some v" "jsProp ''aiSource'' v = Some (JStr src)"
    "src \<in> {''claude-cli'', ''codex-cli'', ''api-key''}"
  shows "snd (postAiConfig req s) =
     (let cfg = (loadConfig s)\<lparr>aiSource := src\<rparr>;
          cfg = (case jsProp ''apiKey'' v of Some k \<Rightarrow> cfg\<lparr>apiKey := k\<rparr> | None \<Rightarrow> cfg);
          cfg = (case jsProp ''apiProvider'' v of Some p \<Rightarrow> cfg\<lparr>apiProvider := p\<rparr> | None \<Rightarrow> cfg)
      in send ''config-changed'' (PConfig cfg)
           (startServer (generateOpenClawConfig cfg (stopServer False (saveConfig cfg s)))))"
proof -
  from assms(2) obtain kvs where v: "v = JObj kvs"
    by (cases v) (simp_all add: jsProp_def)
  from assms show ?thesis unfolding v by (auto simp: postAiConfig_def Let_def)
qed

lemma trace_stopServer_False:
  "trace (stopServer False s) = trace s
     @ [Called (StopServer False), Send ''sessions-updated'' (PSessions [])]
     @ (case gatewayProc s of Some g \<Rightarrow> [Kill g] | None \<Rightarrow> [])
     @ [Send ''status'' (PStr ''stopped'')]"
  by (simp add: stopServer_def small_defs Let_def split: option.splits)

lemma trace_startServer:
  "trace (startServer s) = trace s @ [Called StartServer]
     @ (case findBinary ''openclaw'' s of
          None \<Rightarrow> [Send ''error'' (PStr ''openclaw not found. Install with: brew install openclaw-cli'')]
        | Some bin \<Rightarrow>
            (case find (\<lambda>w. Some (ws_id w) = activeWorkspaceId (loadConfig s)) (workspaces (loadConfig s)) of
               None \<Rightarrow> [Send ''error'' (PStr ''No active workspace configured. Create a workspace first.'')]
             | Some ws \<Rightarrow>
                 if ws_paths ws = []
                 then [Send ''error'' (PStr ''No active workspace configured. Create a workspace first.'')]
                 else [Send ''gateway-log'' (PStr (CHR 0x1B # ''[2J'')),
                       Send ''status'' (PStr ''starting''),
                       SpawnGateway (nextPid s) bin (loadConfig s) (gatewayEnv (loadConfig s)),
                       SetTimeout 2000 ''gatewaySettle'']))"
  by (simp add: startServer_def small_defs loadConfig_def Let_def split: option.splits)

lemma gatewayProc_startServer:
  "gatewayProc (startServer s) =
     (if (case findBinary ''openclaw'' s of None \<Rightarrow> False
          | Some bin \<Rightarrow>
              (case find (\<lambda>w. Some (ws_id w) = activeWorkspaceId (loadConfig s)) (workspaces (loadConfig s)) of
                 None \<Rightarrow> False | Some ws \<Rightarrow> ws_paths ws \<noteq> []))
      then Some (nextPid s) else gatewayProc s)"
  "gateways (startServer s) =
     (if (case findBinary ''openclaw'' s of None \<Rightarrow> False
          | Some bin \<Rightarrow>
              (case find (\<lambda>w. Some (ws_id w) = activeWorkspaceId (loadConfig s)) (workspaces (loadConfig s)) of
                 None \<Rightarrow> False | Some ws \<Rightarrow> ws_paths ws \<noteq> []))
      then (gateways s)(nextPid s := Some True) else gateways s)"
  by (simp_all add: startServer_def small_defs loadConfig_def Let_def split: option.splits)

lemma startServer_clears_flag: "\<not> intentionallyStopping (startServer s)"
  by (simp add: startServer_def small_defs Let_def split: option.splits)

lemma gateways_frames [simp]:
  "gateways (stopServer r s) = gateways s"
  "nextPid (stopServer r s) = nextPid s"
  "gateways (generateOpenClawConfig c s) = gateways s"
  "nextPid (generateOpenClawConfig c s) = nextPid s"
  by (simp_all add: stopServer_def small_defs Let_def split: option.splits)

lemma restart_frames [simp]:
  "bins (stopServer r s) = bins s" "bins (generateOpenClawConfig c s) = bins s"
  "bins (saveConfig c s) = bins s"
  "gatewayProc (stopServer r s) = None" "gatewayProc (generateOpenClawConfig c s) = gatewayProc s"
  "gatewayProc (saveConfig c s) = gatewayProc s" "gatewayProc (send ch d s) = gatewayProc s"
  "nextPid (saveConfig c s) = nextPid s"
  "gateways (saveConfig c s) = gateways s" "gateways (send ch d s) = gateways s"
  "trace (generateOpenClawConfig c s) = trace s" "trace (saveConfig c s) = trace s"
  "trace (send ch d s) = trace s @ [Send ch d]"
  "disk (saveConfig c s) = c"
  by (simp_all add: stopServer_def small_defs Let_def split: option.splits)


text \<open>
  Claim C8. A \<^verbatim>\<open>POST /global/ai-config\<close> with the right credential whose body is an
  object with \<^verbatim>\<open>aiSource: "api-key"\<close>, \<^verbatim>\<open>apiKey: "k"\<close>, \<^verbatim>\<open>apiProvider: "openai"\<close>,
  followed by a \<^verbatim>\<open>GET /global/ai-config\<close>: the GET answers 200 with \<^verbatim>\<open>aiSource\<close>
  api-key, \<^verbatim>\<open>hasApiKey\<close> true and \<^verbatim>\<open>apiProvider\<close> openai, read back from the persisted
  configuration, and changes nothing. The POST restarts the gateway exactly once:
  \<^verbatim>\<open>stopServer(false)\<close> once, then \<^verbatim>\<open>startServer()\<close> once. What the POST adds to the log
  is exactly: the stop (the roster is cleared, the running gateway process, if there is
  one, is killed, status stopped), then the start (with the gateway binary and an active
  workspace: log cleared, status starting, one gateway process spawned with the new
  configuration and the key in its environment, the 2 s settle timer; otherwise one
  error event), then the config-changed event. Afterwards the gateway process is the
  new one, and the presence state is what it was.
\<close>

theorem ai_config_roundtrip:
  assumes "req_url post = ''/global/ai-config''" and "req_method post = ''POST''"
    and "req_authorization post = Some (expectedAuth px)"
    and "req_body post = Some v"
    and "jsProp ''aiSource'' v = Some (JStr ''api-key'')"
    and "jsProp ''apiKey'' v = Some (JStr ''k'')"
    and "jsProp ''apiProvider'' v = Some (JStr ''openai'')"
    and "req_url get = ''/global/ai-config''" and "req_method get = ''GET''"
    and "req_authorization get = Some (expectedAuth px)"
  shows
    "(let s1 = snd (handleRequest px post now s);
          cfg = (loadConfig s)\<lparr>aiSource := ''api-key'', apiKey := JStr ''k'',
                                apiProvider := JStr ''openai''\<rparr>;
          starts = (case findBinary ''openclaw'' s of
                      None \<Rightarrow> False
                    | Some bin \<Rightarrow>
                        (case find (\<lambda>w. Some (ws_id w) = activeWorkspaceId cfg) (workspaces cfg) of
                           None \<Rightarrow> False
                         | Some ws \<Rightarrow> ws_paths ws \<noteq> []))
      in (\<exists>b. fst (handleRequest px get now' s1) = Respond 200 (AiConfigBody b)
              \<and> r_aiSource b = ''api-key'' \<and> r_hasApiKey b \<and> r_apiProvider b = JStr ''openai'')
         \<and> snd (handleRequest px get now' s1) = s1
         \<and> aiSource (disk s1) = ''api-key'' \<and> apiKey (disk s1) = JStr ''k''
         \<and> apiProvider (disk s1) = JStr ''openai''
         \<and> disk s1 = cfg
         \<and> calls s1 = calls s @ [Called (StopServer False), Called StartServer]
         \<and> trace s1 = trace s
               @ [Called (StopServer False), Send ''sessions-updated'' (PSessions [])]
               @ (case gatewayProc s of Some g \<Rightarrow> [Kill g] | None \<Rightarrow> [])
               @ [Send ''status'' (PStr ''stopped''), Called StartServer]
               @ (case findBinary ''openclaw'' s of
                    None \<Rightarrow>
                      [Send ''error'' (PStr ''openclaw not found. Install with: brew install openclaw-cli'')]
                  | Some bin \<Rightarrow>
                      if starts
                      then [Send ''gateway-log'' (PStr (CHR 0x1B # ''[2J'')),
                            Send ''status'' (PStr ''starting''),
                            SpawnGateway (nextPid s) bin cfg (gatewayEnv cfg),
                            SetTimeout 2000 ''gatewaySettle'']
                      else [Send ''error''
                              (PStr ''No active workspace configured. Create a workspace first.'')])
               @ [Send ''config-changed'' (PConfig cfg)]
         \<and> gatewayProc s1 = (if starts then Some (nextPid s) else None)
         \<and> gateways s1 = (if starts then (gateways s)(nextPid s := Some True) else gateways s)
         \<and> \<not> intentionallyStopping s1
         \<and> pres s1 = pres s)"
proof -
  define cfg where "cfg = (loadConfig s)\<lparr>aiSource := ''api-key'', apiKey := JStr ''k'',
                                apiProvider := JStr ''openai''\<rparr>"
  define starts where "starts = (case findBinary ''openclaw'' s of
                      None \<Rightarrow> False
                    | Some bin \<Rightarrow>
                        (case find (\<lambda>w. Some (ws_id w) = activeWorkspaceId cfg) (workspaces cfg) of
                           None \<Rightarrow> False
                         | Some ws \<Rightarrow> ws_paths ws \<noteq> []))"
  define s0 where "s0 = generateOpenClawConfig cfg (stopServer False (saveConfig cfg s))"
  define s1 where "s1 = snd (handleRequest px post now s)"
  have hp: "handleRequest px post now s = postAiConfig post s"
    using assms(1-3) by (simp add: handleRequest_def)
  have s1: "s1 = send ''config-changed'' (PConfig cfg) (startServer s0)"
    unfolding s1_def hp s0_def cfg_def
    using postAiConfig_accepted[of post v "''api-key''" s] assms(4-7)
    by (simp add: Let_def)
  have l0: "loadConfig s0 = cfg"
    by (simp add: loadConfig_def s0_def cfg_def Let_def)
  have b0: "findBinary ''openclaw'' s0 = findBinary ''openclaw'' s"
    by (simp add: findBinary_def s0_def)
  have n0: "nextPid s0 = nextPid s" "gateways s0 = gateways s" "gatewayProc s0 = None"
    by (simp_all add: s0_def)
  have t0: "trace s0 = trace s
               @ [Called (StopServer False), Send ''sessions-updated'' (PSessions [])]
               @ (case gatewayProc s of Some g \<Rightarrow> [Kill g] | None \<Rightarrow> [])
               @ [Send ''status'' (PStr ''stopped'')]"
    by (simp add: s0_def trace_stopServer_False)
  have d: "disk s1 = cfg" by (simp add: s1 s0_def)
  have c: "calls s1 = calls s @ [Called (StopServer False), Called StartServer]"
    by (simp add: s1 s0_def)
  have p: "pres s1 = pres s" by (simp add: s1 s0_def)
  have i: "\<not> intentionallyStopping s1"
    using startServer_clears_flag[of s0] by (simp add: s1 send_def emit_def)
  have gp: "gatewayProc s1 = (if starts then Some (nextPid s) else None)"
    using gatewayProc_startServer(1)[of s0] unfolding l0 b0 n0 starts_def[symmetric]
    by (simp add: s1)
  have gs: "gateways s1 = (if starts then (gateways s)(nextPid s := Some True) else gateways s)"
    using gatewayProc_startServer(2)[of s0] unfolding l0 b0 n0 starts_def[symmetric]
    by (simp add: s1)
  have tr: "trace s1 = trace s
               @ [Called (StopServer False), Send ''sessions-updated'' (PSessions [])]
               @ (case gatewayProc s of Some g \<Rightarrow> [Kill g] | None \<Rightarrow> [])
               @ [Send ''status'' (PStr ''stopped''), Called StartServer]
               @ (case findBinary ''openclaw'' s of
                    None \<Rightarrow>
                      [Send ''error'' (PStr ''openclaw not found. Install with: brew install openclaw-cli'')]
                  | Some bin \<Rightarrow>
                      if starts
                      then [Send ''gateway-log'' (PStr (CHR 0x1B # ''[2J'')),
                            Send ''status'' (PStr ''starting''),
                            SpawnGateway (nextPid s) bin cfg (gatewayEnv cfg),
                            SetTimeout 2000 ''gatewaySettle'']
                      else [Send ''error''
                              (PStr ''No active workspace configured. Create a workspace first.'')])
               @ [Send ''config-changed'' (PConfig cfg)]"
    using trace_startServer[of s0] unfolding l0 b0 n0 t0
    by (simp add: s1 starts_def split: option.splits)
  have hg: "handleRequest px get now' s1 = getAiConfig s1"
    using assms(8-10) by (simp add: handleRequest_def)
  have l: "loadConfig s1 = cfg" by (simp add: loadConfig_def d cfg_def Let_def)
  have g: "\<exists>b. fst (getAiConfig s1) = Respond 200 (AiConfigBody b)
              \<and> r_aiSource b = ''api-key'' \<and> r_hasApiKey b \<and> r_apiProvider b = JStr ''openai''"
    by (simp add: getAiConfig_def Let_def l cfg_def)
  have g2: "snd (getAiConfig s1) = s1" by (simp add: getAiConfig_def Let_def)
  have f: "aiSource (disk s1) = ''api-key''" "apiKey (disk s1) = JStr ''k''"
    "apiProvider (disk s1) = JStr ''openai''" by (simp_all add: d cfg_def)
  show ?thesis
    unfolding Let_def s1_def[symmetric] cfg_def[symmetric] starts_def[symmetric] hg
    using g g2 f d c tr gp gs i p by blast
qed


text \<open>
  The round trip on the example installation after start-up: the gateway of the
  start-up (process 2) is killed and process 3 is spawned in its place.
\<close>

theorem ai_config_roundtrip_witness:
  "fst (handleRequest demoProxy aiConfigGet 3000 (snd (handleRequest demoProxy aiConfigPost 2000 bootState)))
     = Respond 200 (AiConfigBody \<lparr>r_protocolVersion = Some CLAWDAUNT_PROTOCOL_VERSION,
         r_aiSource = ''api-key'', r_apiProvider = JStr ''openai'', r_hasApiKey = True,
         r_clis = (False, False, True),
         r_workspaces = [(''w1'', ''proj'', Some ''/home/u/proj'')],
         r_activeWorkspaceId = Some ''w1''\<rparr>)
   \<and> snd (handleRequest demoProxy aiConfigGet 3000 (snd (handleRequest demoProxy aiConfigPost 2000 bootState)))
       = snd (handleRequest demoProxy aiConfigPost 2000 bootState)
   \<and> disk (snd (handleRequest demoProxy aiConfigPost 2000 bootState))
       = demoConfig\<lparr>aiSource := ''api-key'', apiKey := JStr ''k'', apiProvider := JStr ''openai''\<rparr>
   \<and> calls (snd (handleRequest demoProxy aiConfigPost 2000 bootState))
       = calls bootState @ [Called (StopServer False), Called StartServer]
   \<and> trace (snd (handleRequest demoProxy aiConfigPost 2000 bootState))
       = trace bootState @
         [Called (StopServer False), Send ''sessions-updated'' (PSessions []), Kill 2,
          Send ''status'' (PStr ''stopped''), Called StartServer,
          Send ''gateway-log'' (PStr (CHR 0x1B # ''[2J'')), Send ''status'' (PStr ''starting''),
          SpawnGateway 3 ''/opt/homebrew/bin/openclaw''
            (demoConfig\<lparr>aiSource := ''api-key'', apiKey := JStr ''k'', apiProvider := JStr ''openai''\<rparr>)
            [(''OPENCLAW_GATEWAY_TOKEN'', JStr ''s3cret''), (''OPENAI_API_KEY'', JStr ''k'')],
          SetTimeout 2000 ''gatewaySettle'',
          Send ''config-changed'' (PConfig
            (demoConfig\<lparr>aiSource := ''api-key'', apiKey := JStr ''k'', apiProvider := JStr ''openai''\<rparr>))]
   \<and> gatewayProc (snd (handleRequest demoProxy aiConfigPost 2000 bootState)) = Some 3
   \<and> gateways (snd (handleRequest demoProxy aiConfigPost 2000 bootState)) 3 = Some True
   \<and> pres (snd (handleRequest demoProxy aiConfigPost 2000 bootState)) = pres bootState"
proof -
  have h: "req_url aiConfigPost = ''/global/ai-config''" "req_method aiConfigPost = ''POST''"
    "req_authorization aiConfigPost = Some (expectedAuth demoProxy)"
    "req_body aiConfigPost = Some (JObj [(''aiSource'', JStr ''api-key''), (''apiKey'', JStr ''k''),
                                         (''apiProvider'', JStr ''openai'')])"
    "jsProp ''aiSource'' (JObj [(''aiSource'', JStr ''api-key''), (''apiKey'', JStr ''k''),
                                (''apiProvider'', JStr ''openai'')]) = Some (JStr ''api-key'')"
    "jsProp ''apiKey'' (JObj [(''aiSource'', JStr ''api-key''), (''apiKey'', JStr ''k''),
                              (''apiProvider'', JStr ''openai'')]) = Some (JStr ''k'')"
    "jsProp ''apiProvider'' (JObj [(''aiSource'', JStr ''api-key''), (''apiKey'', JStr ''k''),
                                   (''apiProvider'', JStr ''openai'')]) = Some (JStr ''openai'')"
    "req_url aiConfigGet = ''/global/ai-config''" "req_method aiConfigGet = ''GET''"
    "req_authorization aiConfigGet = Some (expectedAuth demoProxy)"
    by (simp_all add: aiConfigPost_def aiConfigGet_def demoProxy_def jsProp_def)
  have e: "loadConfig bootState = demoConfig"
    "findBinary ''openclaw'' bootState = Some ''/opt/homebrew/bin/openclaw''"
    "gatewayProc bootState = Some 2" "nextPid bootState = 3"
    by code_simp+
  have w: "find (\<lambda>w. Some (ws_id w) = activeWorkspaceId demoConfig) (workspaces demoConfig)
             = Some \<lparr>ws_id = ''w1'', ws_name = ''proj'', ws_paths = [''/home/u/proj''],
                      ws_protected = []\<rparr>"
    "gatewayEnv (demoConfig\<lparr>aiSource := ''api-key'', apiKey := JStr ''k'', apiProvider := JStr ''openai''\<rparr>)
       = [(''OPENCLAW_GATEWAY_TOKEN'', JStr ''s3cret''), (''OPENAI_API_KEY'', JStr ''k'')]"
    by (simp_all add: demoConfig_def gatewayEnv_def)
  have g: "fst (handleRequest demoProxy aiConfigGet 3000 (snd (handleRequest demoProxy aiConfigPost 2000 bootState)))
     = Respond 200 (AiConfigBody \<lparr>r_protocolVersion = Some CLAWDAUNT_PROTOCOL_VERSION,
         r_aiSource = ''api-key'', r_apiProvider = JStr ''openai'', r_hasApiKey = True,
         r_clis = (False, False, True),
         r_workspaces = [(''w1'', ''proj'', Some ''/home/u/proj'')],
         r_activeWorkspaceId = Some ''w1''\<rparr>)"
    by code_simp
  from ai_config_roundtrip[OF h, of 2000 bootState 3000] g show ?thesis
    by (simp add: Let_def e w)
qed

section \<open>Restart for a configuration change and the exit of the old gateway\<close>

text \<open>
  \<^verbatim>\<open>stopServer(false)\<close> keeps the presence state, and so does the restart as a whole
  up to the end of the turn. But \<^verbatim>\<open>startServer\<close> sets \<^verbatim>\<open>intentionallyStopping\<close> back to
  false, so when the exit event of the process that the restart killed is delivered, its
  handler takes the branch of an unexpected exit and resets the presence state.
\<close>

lemma startServer_keeps_gateway:
  "g < nextPid s \<Longrightarrow> gateways (startServer s) g = gateways s g"
  by (simp add: startServer_def small_defs Let_def split: option.splits)

lemma old_gateway_exit_after_restart:
  assumes "gateways s g = Some True" and "g < nextPid s"
  shows "pres (startServer (generateOpenClawConfig cfg (stopServer False s))) = pres s
    \<and> pres (step (GatewayExit g code) (startServer (generateOpenClawConfig cfg (stopServer False s))))
        = (False, False, 0, False)"
proof -
  let ?s' = "startServer (generateOpenClawConfig cfg (stopServer False s))"
  have a: "\<not> intentionallyStopping ?s'" by (rule startServer_clears_flag)
  have b: "gateways ?s' g = Some True"
    using assms by (simp add: startServer_keeps_gateway)
  have c: "step (GatewayExit g code) ?s' = gatewayExit code (?s'\<lparr>gateways := (gateways ?s')(g := Some False)\<rparr>)"
    using b by simp
  have d: "pres (gatewayExit code (?s'\<lparr>gateways := (gateways ?s')(g := Some False)\<rparr>)) = (False, False, 0, False)"
    using a by (simp only: pres_gatewayExit) simp
  show ?thesis unfolding c d by simp
qed

text \<open>
  Claim C6 fails on the code. On the example installation: start-up, a heartbeat at
  1000 ms, the configuration change at 2000 ms (presence still connected, poll running),
  then the exit event of the old gateway process: the client is marked disconnected,
  the poll is stopped, and the disconnected event is sent.
\<close>

theorem restart_for_config_change_drops_presence:
  "pres (run (butlast restartRun) (initial demoConfig demoBins)) = (True, False, 1000, True)
   \<and> pres (run restartRun (initial demoConfig demoBins)) = (False, False, 0, False)
   \<and> last (trace (run restartRun (initial demoConfig demoBins)))
       = Send ''client-disconnected'' (PBool True)"
  by code_simp

section \<open>The reverse proxy and the credential\<close>

text \<open>
  Claim C1 as stated fails: a request for a path that is no local endpoint, carrying
  no credential, gets no 401 from the proxy; it is forwarded to the backend port, and an
  upgrade request is spliced to the backend port.
\<close>

theorem unauthenticated_request_forwarded_counterexample:
  "req_method passThroughReq \<noteq> ''OPTIONS''
   \<and> req_authorization passThroughReq \<noteq> Some (expectedAuth demoProxy)
   \<and> handleRequest demoProxy passThroughReq 1000 bootState = (Forward 4096 passThroughReq, bootState)
   \<and> handleUpgrade demoProxy passThroughReq = Splice 4096 passThroughReq"
  by (simp add: handleRequest_def handleUpgrade_def passThroughReq_def demoProxy_def historyMatch_def)

text \<open>
  Claim C1, amended. For every request whose method is not OPTIONS and whose
  Authorization header differs from the expected one: if it addresses one of the
  endpoints the proxy answers itself (heartbeat, AI configuration read and write,
  workspaces read, active workspace write, session history, session list), the answer is
  401 with the body \<^verbatim>\<open>{error: "Unauthorized"}\<close> and the state is unchanged; any other
  request is forwarded unchanged to the backend port, without a check by the proxy, and
  an upgrade request is spliced to the backend port, without a check by the proxy.
\<close>

theorem unauthorized_local_endpoints:
  assumes "req_method req \<noteq> ''OPTIONS''"
    and "req_authorization req \<noteq> Some (expectedAuth px)"
  shows "handleRequest px req now s =
           (if terminatedLocally req then (Respond 401 (ErrorBody ''Unauthorized''), s)
            else (Forward (targetPort px) req, s))
         \<and> handleUpgrade px req = Splice (targetPort px) req"
  using assms
  by (simp add: handleRequest_def handleUpgrade_def terminatedLocally_def unauthorized_def)

text \<open>A heartbeat with a wrong credential on the example installation gets the 401.\<close>

theorem unauthorized_local_endpoints_witness:
  "handleRequest demoProxy badHeartbeatReq 1000 bootState
     = (Respond 401 (ErrorBody ''Unauthorized''), bootState)"
proof -
  have h: "req_method badHeartbeatReq \<noteq> ''OPTIONS''"
    "req_authorization badHeartbeatReq \<noteq> Some (expectedAuth demoProxy)"
    by (simp_all add: badHeartbeatReq_def demoProxy_def)
  have l: "terminatedLocally badHeartbeatReq"
    by (simp add: terminatedLocally_def badHeartbeatReq_def)
  from unauthorized_local_endpoints[OF h, of 1000 bootState] l show ?thesis by simp
qed

section \<open>Frame lemmas: what leaves the tunnel side alone\<close>

lemma stc_emit [simp]:
  "startTunnelCalls (emit e s) = startTunnelCalls s + (if e = Called StartTunnel then 1 else 0)"
  by (simp add: startTunnelCalls_def emit_def)

lemma tside_prim [simp]:
  "e \<noteq> Called StartTunnel \<Longrightarrow> tside (emit e s) = tside s"
  "tside (send ch d s) = tside s"
  "tside (saveConfig c s) = tside s"
  "tside (generateOpenClawConfig c s) = tside s"
  "tside (killGateway s) = tside s"
  "tside (closeGatewayWs s) = tside s"
  "tside (connectGatewayWs s) = tside s"
  "tside (startProxyServer a b s) = tside s"
  "tside (stopProxyServer s) = tside s"
  "tside (startSetupServer s) = tside s"
  "tside (stopSetupServer s) = tside s"
  "tside (startClientPresenceMonitor s) = tside s"
  "tside (stopClientPresenceMonitor s) = tside s"
  "tside (resetPresence s) = tside s"
  by (simp_all add: tside_def startTunnelCalls_def small_defs Let_def split: option.splits)

lemma tside_upd [simp]:
  "tside (s\<lparr>gatewayProc := x1\<rparr>) = tside s"
  "tside (s\<lparr>setupHttpServer := x3\<rparr>) = tside s"
  "tside (s\<lparr>proxyServer := x4\<rparr>) = tside s"
  "tside (s\<lparr>intentionallyStopping := x5\<rparr>) = tside s"
  "tside (s\<lparr>lastClientHeartbeat := x6\<rparr>) = tside s"
  "tside (s\<lparr>clientPresenceInterval := x7\<rparr>) = tside s"
  "tside (s\<lparr>clientConnectedState := x8\<rparr>) = tside s"
  "tside (s\<lparr>clientAwayState := x9\<rparr>) = tside s"
  "tside (s\<lparr>caffeinateProc := x11\<rparr>) = tside s"
  "tside (s\<lparr>disk := x12\<rparr>) = tside s"
  "tside (s\<lparr>bins := x13\<rparr>) = tside s"
  "tside (s\<lparr>openclawJson := x14\<rparr>) = tside s"
  "tside (s\<lparr>nextPid := x15\<rparr>) = tside s"
  "tside (s\<lparr>gateways := x17\<rparr>) = tside s"
  "tside (s\<lparr>settleTimers := x19\<rparr>) = tside s"
  by (simp_all add: tside_def startTunnelCalls_def)

lemma tside_presenceTick [simp]: "tside (presenceTick now s) = tside s"
  by (simp add: presenceTick_def Let_def)
lemma tside_startServer [simp]: "tside (startServer s) = tside s"
  by (simp add: startServer_def Let_def split: option.splits)
lemma tside_stopServer [simp]: "tside (stopServer r s) = tside s"
  by (simp add: stopServer_def Let_def)
lemma tside_gatewaySettle [simp]: "tside (gatewaySettle s) = tside s"
  by (simp add: gatewaySettle_def)
lemma tside_gatewayError [simp]: "tside (gatewayError m s) = tside s"
  by (simp add: gatewayError_def)
lemma tside_gatewayExit [simp]: "tside (gatewayExit code s) = tside s"
  by (simp add: gatewayExit_def Let_def)
lemma tside_cloudflaredError [simp]: "tside (cloudflaredError m s) = tside s"
  by (simp add: cloudflaredError_def)
lemma tside_ipcSetAiSource [simp]: "tside (ipcSetAiSource a k p s) = tside s"
  by (simp add: ipcSetAiSource_def Let_def)
lemma tside_ipcWorkspaceCreate [simp]: "tside (ipcWorkspaceCreate d n s) = tside s"
  by (simp add: ipcWorkspaceCreate_def Let_def split: option.splits)
lemma tside_ipcWorkspaceRename [simp]: "tside (ipcWorkspaceRename w n s) = tside s"
  by (simp add: ipcWorkspaceRename_def Let_def)
lemma tside_ipcWorkspaceDelete [simp]: "tside (ipcWorkspaceDelete w s) = tside s"
  by (simp add: ipcWorkspaceDelete_def Let_def)
lemma tside_ipcWorkspaceSetActive [simp]: "tside (ipcWorkspaceSetActive w s) = tside s"
  by (simp add: ipcWorkspaceSetActive_def Let_def split: option.splits)
lemma tside_ipcAddProtected [simp]: "tside (ipcAddProtected w p s) = tside s"
  by (simp add: ipcAddProtected_def Let_def split: option.splits)
lemma tside_ipcRemoveProtected [simp]: "tside (ipcRemoveProtected w p s) = tside s"
  by (simp add: ipcRemoveProtected_def Let_def)
lemma tside_onSuspend [simp]: "tside (onSuspend s) = tside s"
  by (simp add: onSuspend_def)
lemma tside_onResume [simp]: "tside (onResume now s) = tside s"
  by (simp add: onResume_def)
lemma tside_heartbeat [simp]: "tside (snd (heartbeat now s)) = tside s"
  by (simp add: heartbeat_def Let_def)
lemma tside_postAiConfig [simp]: "tside (snd (postAiConfig req s)) = tside s"
  by (simp add: postAiConfig_def Let_def split: option.splits json.splits)
lemma tside_postActiveWorkspace [simp]: "tside (snd (postActiveWorkspace req s)) = tside s"
  by (simp add: postActiveWorkspace_def Let_def split: option.splits json.splits)
lemma tside_handleRequest [simp]: "tside (snd (handleRequest px req now s)) = tside s"
  by (simp add: handleRequest_def Let_def getAiConfig_def getWorkspaces_def getSessions_def
      split: option.splits)

lemma tside_step: "\<not> tunnelEvent e \<Longrightarrow> tside (step e s) = tside s"
  by (cases e) (simp_all split: option.splits)

section \<open>The tunnel binary is missing\<close>

lemma tside_fields:
  assumes "tside a = tside b"
  shows "tunnels a = tunnels b" and "restartTimers a = restartTimers b"
    and "currentTunnelURL a = currentTunnelURL b" and "startTunnelCalls a = startTunnelCalls b"
    and "probes a = probes b" and "tunnelHealthStatus a = tunnelHealthStatus b"
    and "tunnelHealthInterval a = tunnelHealthInterval b"
    and "tunnelRestarting a = tunnelRestarting b" and "cloudflaredProc a = cloudflaredProc b"
  using assms by (simp_all add: tside_def)

lemma tside_kill [simp]:
  "tside (killCaffeinate s) = tside s" "tside (killCloudflared s) = tside s"
  by (simp_all add: killCaffeinate_def killCloudflared_def split: option.splits)

lemmas tside_prim_fields = tside_prim[THEN tside_fields(1)] tside_prim[THEN tside_fields(2)]
  tside_prim[THEN tside_fields(3)] tside_prim[THEN tside_fields(5)]
  tside_prim[THEN tside_fields(6)] tside_prim[THEN tside_fields(9)]
  tside_kill[THEN tside_fields(1)] tside_kill[THEN tside_fields(2)]
  tside_kill[THEN tside_fields(3)] tside_kill[THEN tside_fields(5)]
  tside_kill[THEN tside_fields(6)] tside_kill[THEN tside_fields(9)]
  tside_upd[THEN tside_fields(1)] tside_upd[THEN tside_fields(2)]
  tside_upd[THEN tside_fields(3)] tside_upd[THEN tside_fields(5)]
  tside_upd[THEN tside_fields(6)] tside_upd[THEN tside_fields(9)]

text \<open>The shutdown on the tunnel side.\<close>

lemma stopAll_fields:
  "tunnels (stopAll s) = tunnels s" "currentTunnelURL (stopAll s) = []"
  "cloudflaredProc (stopAll s) = None" "restartTimers (stopAll s) = restartTimers s"
  "probes (stopAll s) = probes s" "tunnelHealthStatus (stopAll s) = tunnelHealthStatus s"
  by (simp_all add: stopAll_def Let_def tside_prim_fields)

lemma startTunnel_no_binary:
  "findBinary ''cloudflared'' s = None \<Longrightarrow>
   startTunnel s = s\<lparr>trace := trace s @ [Called StartTunnel, Send ''error''
     (PStr ''cloudflared not found. Install with: brew install cloudflare/cloudflare/cloudflared'')]\<rparr>"
  by (simp add: startTunnel_def findBinary_def send_def emit_def Let_def)

lemma restartTimers_frames [simp]:
  "restartTimers (startTunnel s) = restartTimers s"
  "restartTimers (startTunnelHealthMonitor s) = restartTimers s"
  "restartTimers (waitForDns pid now s) = restartTimers s"
  "restartTimers (dnsCallback pid err s) = restartTimers s"
  by (simp_all add: startTunnel_def startTunnelHealthMonitor_def waitForDns_def dnsCallback_def
      small_defs Let_def split: option.splits)

lemma restartTimers_healthTick [simp]:
  "restartTimers (healthTick s) = restartTimers s"
  "restartTimers (healthTickResume m ok s) = restartTimers s"
  by (simp_all add: healthTick_def healthTickResume_def small_defs Let_def split: option.splits)

lemma restartTimers_onData [simp]: "restartTimers (onData pid chunk now xn s) = restartTimers s"
  by (simp add: onData_def send_def emit_def split: option.splits)

lemma restartTimers_appReady [simp]: "restartTimers (appReady s) = restartTimers s"
proof -
  have "\<And>s. restartTimers (startServer s) = restartTimers s"
    using tside_startServer by (rule tside_fields)
  then show ?thesis by (simp add: appReady_def small_defs Let_def)
qed

lemma restart_timer_only_from_exit:
  assumes "restartTimers s < restartTimers (step e s)"
  shows "\<exists>pid c. e = TunnelExit pid \<and> tunnels s pid = Some c \<and> \<not> exited c"
proof (cases "tunnelEvent e")
  case False
  from tside_step[OF this, of s] have "restartTimers (step e s) = restartTimers s"
    by (rule tside_fields)
  with assms show ?thesis by simp
next
  case True
  from True assms stopAll_fields(4)[of s] show ?thesis
    by (cases e) (auto split: option.splits if_splits)
qed

lemma healthTick_no_url: "currentTunnelURL s = [] \<Longrightarrow> healthTick s = s"
  by (simp add: healthTick_def)

lemma onData_no_closure: "tunnels s pid = None \<Longrightarrow> onData pid chunk now xn s = s"
  by (simp add: onData_def)

lemma stc_prim [simp]:
  "startTunnelCalls (send ch d s) = startTunnelCalls s"
  "startTunnelCalls (killGateway s) = startTunnelCalls s"
  "startTunnelCalls (killCloudflared s) = startTunnelCalls s"
  "startTunnelCalls (closeGatewayWs s) = startTunnelCalls s"
  "startTunnelCalls (stopClientPresenceMonitor s) = startTunnelCalls s"
  "startTunnelCalls (resetPresence s) = startTunnelCalls s"
  "startTunnelCalls (setTunnelHealth h s) = startTunnelCalls s"
  "startTunnelCalls (stopProxyServer s) = startTunnelCalls s"
  "startTunnelCalls (stopSetupServer s) = startTunnelCalls s"
  "startTunnelCalls (killCaffeinate s) = startTunnelCalls s"
  by (simp_all add: startTunnelCalls_def killCaffeinate_def small_defs split: option.splits)

lemma stc_upd [simp]:
  "startTunnelCalls (s\<lparr>gatewayProc := x1\<rparr>) = startTunnelCalls s"
  "startTunnelCalls (s\<lparr>cloudflaredProc := x2\<rparr>) = startTunnelCalls s"
  "startTunnelCalls (s\<lparr>setupHttpServer := x3\<rparr>) = startTunnelCalls s"
  "startTunnelCalls (s\<lparr>proxyServer := x4\<rparr>) = startTunnelCalls s"
  "startTunnelCalls (s\<lparr>intentionallyStopping := x5\<rparr>) = startTunnelCalls s"
  "startTunnelCalls (s\<lparr>tunnelRestarting := x6\<rparr>) = startTunnelCalls s"
  "startTunnelCalls (s\<lparr>currentTunnelURL := x7\<rparr>) = startTunnelCalls s"
  "startTunnelCalls (s\<lparr>tunnelHealthInterval := x8\<rparr>) = startTunnelCalls s"
  "startTunnelCalls (s\<lparr>monitorId := x9\<rparr>) = startTunnelCalls s"
  "startTunnelCalls (s\<lparr>failCounts := x21\<rparr>) = startTunnelCalls s"
  "startTunnelCalls (s\<lparr>probes := x22\<rparr>) = startTunnelCalls s"
  "startTunnelCalls (s\<lparr>tunnelHealthStatus := x10\<rparr>) = startTunnelCalls s"
  "startTunnelCalls (s\<lparr>caffeinateProc := x11\<rparr>) = startTunnelCalls s"
  "startTunnelCalls (s\<lparr>nextPid := x15\<rparr>) = startTunnelCalls s"
  "startTunnelCalls (s\<lparr>tunnels := x16\<rparr>) = startTunnelCalls s"
  "startTunnelCalls (s\<lparr>restartTimers := x18\<rparr>) = startTunnelCalls s"
  by (simp_all add: startTunnelCalls_def)

lemma stopAll_calls: "startTunnelCalls (stopAll s) = startTunnelCalls s"
  by (simp add: stopAll_def Let_def split: option.splits)

text \<open>
  A state without tunnel closures, pending restart timers, published URL, tunnel process
  and awaited probes stays such a state over every event but the start-up, and
  \<^verbatim>\<open>startTunnel\<close> is not called.
\<close>

lemma quiet_step:
  assumes q: "\<forall>pid. tunnels s pid = None" "restartTimers s = 0" "currentTunnelURL s = []"
    "cloudflaredProc s = None" "\<forall>m. probes s m = 0"
    and e: "e \<noteq> AppReady"
  shows "(\<forall>pid. tunnels (step e s) pid = None) \<and> restartTimers (step e s) = 0
         \<and> currentTunnelURL (step e s) = [] \<and> cloudflaredProc (step e s) = None
         \<and> (\<forall>m. probes (step e s) m = 0)
         \<and> startTunnelCalls (step e s) = startTunnelCalls s"
proof (cases "tunnelEvent e")
  case False
  from tside_step[OF this, of s] q show ?thesis by (simp add: tside_def)
next
  case True
  have same: "step e s = s \<Longrightarrow> ?thesis" using q by simp
  from True e show ?thesis
  proof (cases e)
    case HealthTick
    then show ?thesis using q(3) same by (simp add: healthTick_no_url)
  next
    case (ProbeResult m ok)
    then show ?thesis using q(5) same by simp
  next
    case (TunnelData pid chunk now xn)
    then show ?thesis using q(1) same by (simp add: onData_no_closure)
  next
    case (DnsTimer pid now)
    then show ?thesis using q(1) same by simp
  next
    case (DnsResult pid ok)
    then show ?thesis using q(1) same by simp
  next
    case (TunnelExit pid)
    then show ?thesis using q(1) same by simp
  next
    case RestartTimer
    then show ?thesis using q(2) same by simp
  next
    case WindowAllClosed
    then show ?thesis using q by (simp add: stopAll_calls stopAll_fields)
  next
    case BeforeQuit
    then show ?thesis using q by (simp add: stopAll_calls stopAll_fields)
  qed simp_all
qed

lemma quiet_run:
  assumes "\<forall>pid. tunnels s pid = None" "restartTimers s = 0" "currentTunnelURL s = []"
    "cloudflaredProc s = None" "\<forall>m. probes s m = 0" "AppReady \<notin> set evs"
  shows "(\<forall>pid. tunnels (run evs s) pid = None) \<and> restartTimers (run evs s) = 0
         \<and> currentTunnelURL (run evs s) = [] \<and> cloudflaredProc (run evs s) = None
         \<and> startTunnelCalls (run evs s) = startTunnelCalls s"
  using assms
proof (induction evs arbitrary: s)
  case Nil
  then show ?case by simp
next
  case (Cons e evs)
  from Cons.prems have e: "e \<noteq> AppReady" and r: "AppReady \<notin> set evs" by auto
  from quiet_step[OF Cons.prems(1-5) e]
  have q: "\<forall>pid. tunnels (step e s) pid = None" "restartTimers (step e s) = 0"
    "currentTunnelURL (step e s) = []" "cloudflaredProc (step e s) = None"
    "\<forall>m. probes (step e s) m = 0"
    and c: "startTunnelCalls (step e s) = startTunnelCalls s" by auto
  from Cons.IH[OF q r] c show ?case by simp
qed

lemma appReady_no_binary:
  assumes "b ''cloudflared'' = None"
  shows "(\<forall>pid. tunnels (appReady (initial cfg b)) pid = None)
     \<and> restartTimers (appReady (initial cfg b)) = 0
     \<and> currentTunnelURL (appReady (initial cfg b)) = []
     \<and> cloudflaredProc (appReady (initial cfg b)) = None
     \<and> (\<forall>m. probes (appReady (initial cfg b)) m = 0)
     \<and> startTunnelCalls (appReady (initial cfg b)) = 1"
proof -
  let ?s0 = "initial cfg b"
  let ?s1 = "startProxyServer (port (loadConfig ?s0)) (port (loadConfig ?s0) + 1)
               (emit (SpawnCaffeinate (nextPid ?s0)) (?s0\<lparr>caffeinateProc := Some (nextPid ?s0), nextPid := Suc (nextPid ?s0)\<rparr>))"
  have nb: "findBinary ''cloudflared'' ?s1 = None"
    using assms by (simp add: findBinary_def startProxyServer_def emit_def initial_def Let_def)
  have t1: "tside ?s1 = tside ?s0" by simp
  have t0: "tside ?s0 = ((\<lambda>_. None), 0, [], 0, (0, (\<lambda>_. 0), (\<lambda>_. 0)), Checking, False, False, None)"
    by (simp add: tside_def initial_def startTunnelCalls_def)
  have st: "tside (startTunnel ?s1)
              = ((\<lambda>_. None), 0, [], 1, (0, (\<lambda>_. 0), (\<lambda>_. 0)), Checking, False, False, None)"
    using t1 t0 by (simp add: startTunnel_no_binary[OF nb] tside_def startTunnelCalls_def)
  have "tside (appReady ?s0) = tside (startTunnel ?s1)"
    by (simp add: appReady_def Let_def loadConfig_def emit_def startProxyServer_def)
  with st show ?thesis by (simp add: tside_def)
qed

text \<open>
  Claim C10. When \<^verbatim>\<open>findBinary\<close> finds no tunnel binary, \<^verbatim>\<open>startTunnel\<close> sends the error
  event and returns: nothing else of the state changes, so no process is spawned and no
  timer is armed. A restart timer is armed by no step but the exit event of a spawned
  tunnel process. Hence, when the binary is missing at start-up, then whatever events
  follow (the binary may even appear later), \<^verbatim>\<open>startTunnel\<close> is never called again:
  its call at start-up stays the only one, no tunnel process exists, no restart timer is
  pending and no URL is published.
\<close>

theorem startTunnel_without_binary_no_retry:
  "(findBinary ''cloudflared'' s = None \<longrightarrow>
      startTunnel s = s\<lparr>trace := trace s @ [Called StartTunnel, Send ''error''
        (PStr ''cloudflared not found. Install with: brew install cloudflare/cloudflare/cloudflared'')]\<rparr>)
   \<and> (\<forall>e s'. restartTimers s' < restartTimers (step e s') \<longrightarrow>
         (\<exists>pid c. e = TunnelExit pid \<and> tunnels s' pid = Some c \<and> \<not> exited c))
   \<and> (b ''cloudflared'' = None \<and> AppReady \<notin> set evs \<longrightarrow>
        startTunnelCalls (run (AppReady # evs) (initial cfg b)) = 1
        \<and> cloudflaredProc (run (AppReady # evs) (initial cfg b)) = None
        \<and> restartTimers (run (AppReady # evs) (initial cfg b)) = 0
        \<and> currentTunnelURL (run (AppReady # evs) (initial cfg b)) = [])"
proof (intro conjI impI allI)
  assume "findBinary ''cloudflared'' s = None"
  then show "startTunnel s = s\<lparr>trace := trace s @ [Called StartTunnel, Send ''error''
        (PStr ''cloudflared not found. Install with: brew install cloudflare/cloudflare/cloudflared'')]\<rparr>"
    by (rule startTunnel_no_binary)
next
  fix e s'
  assume "restartTimers s' < restartTimers (step e s')"
  then show "\<exists>pid c. e = TunnelExit pid \<and> tunnels s' pid = Some c \<and> \<not> exited c"
    by (rule restart_timer_only_from_exit)
next
  assume a: "b ''cloudflared'' = None \<and> AppReady \<notin> set evs"
  from appReady_no_binary[of b cfg] a
  have q: "\<forall>pid. tunnels (appReady (initial cfg b)) pid = None"
    "restartTimers (appReady (initial cfg b)) = 0"
    "currentTunnelURL (appReady (initial cfg b)) = []"
    "cloudflaredProc (appReady (initial cfg b)) = None"
    "\<forall>m. probes (appReady (initial cfg b)) m = 0"
    and c: "startTunnelCalls (appReady (initial cfg b)) = 1" by auto
  from a have r: "AppReady \<notin> set evs" by simp
  from quiet_run[OF q r] c
  have all: "startTunnelCalls (run (AppReady # evs) (initial cfg b)) = 1
        \<and> cloudflaredProc (run (AppReady # evs) (initial cfg b)) = None
        \<and> restartTimers (run (AppReady # evs) (initial cfg b)) = 0
        \<and> currentTunnelURL (run (AppReady # evs) (initial cfg b)) = []" by simp
  then show "startTunnelCalls (run (AppReady # evs) (initial cfg b)) = 1" by simp
  from all show "cloudflaredProc (run (AppReady # evs) (initial cfg b)) = None" by simp
  from all show "restartTimers (run (AppReady # evs) (initial cfg b)) = 0" by simp
  from all show "currentTunnelURL (run (AppReady # evs) (initial cfg b)) = []" by simp
qed

text \<open>
  Start-up of the example installation on a file system without binaries, followed by
  the binaries appearing, a gateway start, and stray timer and process events.
\<close>

theorem startTunnel_without_binary_no_retry_witness:
  "startTunnelCalls (run (AppReady # laterEvents) (initial demoConfig noBins)) = 1
   \<and> cloudflaredProc (run (AppReady # laterEvents) (initial demoConfig noBins)) = None
   \<and> restartTimers (run (AppReady # laterEvents) (initial demoConfig noBins)) = 0"
proof -
  have h: "noBins ''cloudflared'' = None \<and> AppReady \<notin> set laterEvents"
    by (simp add: noBins_def laterEvents_def)
  from startTunnel_without_binary_no_retry[of "initial demoConfig noBins" noBins laterEvents demoConfig] h
  show ?thesis by blast
qed

section \<open>The health monitor starts healthy\<close>

text \<open>
  Claim C9. \<^verbatim>\<open>startTunnelHealthMonitor\<close> sets the health to healthy and sends the
  tunnel-health event at once, and creates the interval; it issues no probe. So the
  step that publishes a URL (a successful DNS answer) ends with the health healthy, and
  the only things it adds to the log are the tunnel-url and tunnel-health events.
\<close>

theorem health_monitor_starts_healthy:
  "tunnelHealthStatus (startTunnelHealthMonitor s) = Healthy
   \<and> trace (startTunnelHealthMonitor s) = trace s @ [Send ''tunnel-health'' (PHealth Healthy)]
   \<and> tunnelHealthInterval (startTunnelHealthMonitor s)
   \<and> (tunnels s pid = Some c \<and> resolving c \<longrightarrow>
        tunnelHealthStatus (step (DnsResult pid True) s) = Healthy
        \<and> currentTunnelURL (step (DnsResult pid True) s) = tunnelUrl c
        \<and> trace (step (DnsResult pid True) s)
            = trace s @ [Send ''tunnel-url'' (PStr (tunnelUrl c)),
                         Send ''tunnel-health'' (PHealth Healthy)])"
  by (simp add: startTunnelHealthMonitor_def dnsCallback_def setTunnelHealth_def send_def emit_def
      Let_def)

text \<open>
  On the example run the URL is published and reported healthy, and the log holds no
  probe at all.
\<close>

theorem health_monitor_starts_healthy_witness:
  "tunnelHealthStatus publishedState = Healthy
   \<and> currentTunnelURL publishedState = ''https://quick-fox-42.trycloudflare.com''
   \<and> filter isProbe (trace publishedState) = []"
proof -
  let ?s = "run (butlast publishRun) (initial demoConfig demoBins)"
  let ?c = "\<lparr>urlFound = True, rateLimited = False,
             tunnelUrl = ''https://quick-fox-42.trycloudflare.com'',
             hostname = ''quick-fox-42.trycloudflare.com'', dnsStart = 5000,
             resolving = True, dnsTimer = False, exited = False\<rparr>"
  have a: "tunnels ?s 1 = Some ?c \<and> resolving ?c" by code_simp
  have b: "publishedState = step (DnsResult 1 True) ?s"
    by (simp add: publishedState_def publishRun_def del: step.simps)
  have c: "filter isProbe (trace publishedState) = []" by code_simp
  from health_monitor_starts_healthy[of ?s 1 ?c] a
  have "tunnelHealthStatus (step (DnsResult 1 True) ?s) = Healthy
     \<and> currentTunnelURL (step (DnsResult 1 True) ?s) = ''https://quick-fox-42.trycloudflare.com''"
    by (simp del: step.simps)
  with b c show ?thesis by simp
qed

section \<open>Three failed checks and the restart of the tunnel\<close>


lemma urlCleared_upd [simp]:
  "urlCleared (s\<lparr>gatewayProc := x1\<rparr>) = urlCleared s"
  "urlCleared (s\<lparr>cloudflaredProc := x2\<rparr>) = urlCleared s"
  "urlCleared (s\<lparr>tunnelRestarting := x6\<rparr>) = urlCleared s"
  "urlCleared (s\<lparr>currentTunnelURL := x7\<rparr>) = urlCleared s"
  "urlCleared (s\<lparr>monitorId := x9\<rparr>) = urlCleared s"
  "urlCleared (s\<lparr>failCounts := x21\<rparr>) = urlCleared s"
  "urlCleared (s\<lparr>probes := x22\<rparr>) = urlCleared s"
  "urlCleared (s\<lparr>tunnelHealthStatus := x10\<rparr>) = urlCleared s"
  "urlCleared (s\<lparr>nextPid := x15\<rparr>) = urlCleared s"
  "urlCleared (s\<lparr>tunnels := x16\<rparr>) = urlCleared s"
  by (simp_all add: urlCleared_def)

lemma urlCleared_emit [simp]:
  "urlCleared (emit e s) = urlCleared s + (if e = Send ''tunnel-url'' (PStr []) then 1 else 0)"
  by (simp add: urlCleared_def emit_def)

text \<open>What \<^verbatim>\<open>startTunnel\<close> leaves alone, and what it changes.\<close>

lemma startTunnel_fields:
  "currentTunnelURL (startTunnel s) = currentTunnelURL s"
  "tunnelHealthStatus (startTunnel s) = tunnelHealthStatus s"
  "tunnelRestarting (startTunnel s) = tunnelRestarting s"
  "intentionallyStopping (startTunnel s) = intentionallyStopping s"
  "failCounts (startTunnel s) = failCounts s"
  "tunnelHealthInterval (startTunnel s) = tunnelHealthInterval s"
  "monitorId (startTunnel s) = monitorId s"
  "probes (startTunnel s) = probes s"
  by (simp_all add: startTunnel_def send_def emit_def Let_def split: option.splits)

lemma startTunnel_counts:
  "startTunnelCalls (startTunnel s) = startTunnelCalls s + 1"
  "urlCleared (startTunnel s) = urlCleared s"
  by (simp_all add: startTunnel_def send_def Let_def split: option.splits)

lemma startTunnel_keeps_live:
  "tunnels s p = Some c \<Longrightarrow> \<not> exited c \<Longrightarrow>
   \<exists>c'. tunnels (startTunnel s) p = Some c' \<and> \<not> exited c'"
  by (simp add: startTunnel_def send_def emit_def Let_def freshClosure_def split: option.splits)

text \<open>
  A check whose probe is answered before any other event is delivered: the tick and the
  result of its probe, one after the other.
\<close>

lemma check_answered_at_once:
  assumes "tunnelHealthInterval s" "currentTunnelURL s \<noteq> []" "\<not> intentionallyStopping s"
  shows "step (ProbeResult (monitorId s) ok) (step HealthTick s)
         = healthTickResume (monitorId s) ok
             (emit (HttpsGet (currentTunnelURL s @ ''/global/health'')
                      (''Bearer '' @ password (loadConfig s))) s)"
  using assms by (simp add: healthTick_def emit_def)

lemma resume_fail_first:
  assumes "failCounts t m = 0"
  shows "healthTickResume m False t =
           send ''tunnel-health'' (PHealth Checking) t
             \<lparr>failCounts := (failCounts t)(m := 1), tunnelHealthStatus := Checking\<rparr>"
  using assms by (simp add: healthTickResume_def Let_def setTunnelHealth_def send_def emit_def)

lemma resume_fail_second:
  assumes "failCounts t m = 1"
  shows "healthTickResume m False t = t\<lparr>failCounts := (failCounts t)(m := 2)\<rparr>"
  using assms
  by (simp add: healthTickResume_def Let_def setTunnelHealth_def send_def emit_def numeral_2_eq_2)

lemma resume_fail_third:
  assumes "failCounts t m = 2"
  shows "healthTickResume m False t =
           startTunnel
            ((killCloudflared
               ((send ''tunnel-url'' (PStr [])
                  ((setTunnelHealth Down (t\<lparr>failCounts := (failCounts t)(m := 0)\<rparr>))
                    \<lparr>currentTunnelURL := []\<rparr>))
                 \<lparr>tunnelRestarting := True\<rparr>))
              \<lparr>cloudflaredProc := None\<rparr>)"
  using assms by (simp add: healthTickResume_def Let_def)


text \<open>
  Three failed checks in a row, each answered at once, on a state with health healthy, a
  published URL, the monitor running with a closure that has counted no failure, no
  deliberate stop in progress and a live tunnel process \<open>p\<close>: the health is checking
  after the first (and still after the second, the URL kept), and down after the third,
  where the URL is cleared, the empty URL is sent once, the guard flag is set, \<open>p\<close> is
  killed and \<^verbatim>\<open>startTunnel\<close> is called once. If the exit event of \<open>p\<close> comes after
  that, it only clears the guard flag: nothing is logged, no restart timer is armed.
\<close>

lemma three_failures_answered_at_once:
  assumes h: "tunnelHealthStatus s = Healthy"
    and u: "currentTunnelURL s \<noteq> []"
    and i: "tunnelHealthInterval s"
    and ns: "\<not> intentionallyStopping s"
    and f: "failCounts s (monitorId s) = 0"
    and p: "cloudflaredProc s = Some p"
    and c: "tunnels s p = Some c"
    and e: "\<not> exited c"
  shows
   "(let m = monitorId s;
         s1 = step (ProbeResult m False) (step HealthTick s);
         s2 = step (ProbeResult m False) (step HealthTick s1);
         s3 = step (ProbeResult m False) (step HealthTick s2);
         s4 = step (TunnelExit p) s3
     in tunnelHealthStatus s1 = Checking \<and> currentTunnelURL s1 = currentTunnelURL s
        \<and> tunnelHealthStatus s2 = Checking \<and> currentTunnelURL s2 = currentTunnelURL s
        \<and> urlCleared s2 = urlCleared s \<and> startTunnelCalls s2 = startTunnelCalls s
        \<and> tunnelHealthStatus s3 = Down \<and> currentTunnelURL s3 = []
        \<and> urlCleared s3 = urlCleared s + 1 \<and> startTunnelCalls s3 = startTunnelCalls s + 1
        \<and> tunnelRestarting s3 \<and> Kill p \<in> set (trace s3)
        \<and> \<not> tunnelRestarting s4 \<and> trace s4 = trace s3
        \<and> restartTimers s4 = restartTimers s
        \<and> tunnelHealthStatus s4 = Down \<and> currentTunnelURL s4 = []
        \<and> urlCleared s4 = urlCleared s + 1 \<and> startTunnelCalls s4 = startTunnelCalls s + 1)"
proof -
  define m where "m = monitorId s"
  define s1 where "s1 = step (ProbeResult m False) (step HealthTick s)"
  define s2 where "s2 = step (ProbeResult m False) (step HealthTick s1)"
  define s3 where "s3 = step (ProbeResult m False) (step HealthTick s2)"
  define s4 where "s4 = step (TunnelExit p) s3"
  define t0 where "t0 = emit (HttpsGet (currentTunnelURL s @ ''/global/health'')
                           (''Bearer '' @ password (loadConfig s))) s"
  have f0: "failCounts t0 m = 0" using f by (simp add: t0_def m_def emit_def)
  have e1: "s1 = send ''tunnel-health'' (PHealth Checking) t0
                   \<lparr>failCounts := (failCounts t0)(m := 1), tunnelHealthStatus := Checking\<rparr>"
    using check_answered_at_once[OF i u ns, of False] resume_fail_first[OF f0]
    by (simp only: s1_def m_def t0_def)
  have a1: "tunnelHealthStatus s1 = Checking" "currentTunnelURL s1 = currentTunnelURL s"
    "tunnelHealthInterval s1" "\<not> intentionallyStopping s1" "failCounts s1 m = 1"
    "cloudflaredProc s1 = Some p" "tunnels s1 = tunnels s" "restartTimers s1 = restartTimers s"
    "monitorId s1 = m"
    using i ns p by (simp_all add: e1 t0_def m_def send_def emit_def)
  have b1: "urlCleared s1 = urlCleared s" "startTunnelCalls s1 = startTunnelCalls s"
    by (simp_all add: e1 t0_def send_def)
  have u1: "currentTunnelURL s1 \<noteq> []" using a1 u by simp
  define t1 where "t1 = emit (HttpsGet (currentTunnelURL s1 @ ''/global/health'')
                           (''Bearer '' @ password (loadConfig s1))) s1"
  have f1: "failCounts t1 m = 1" using a1(5) by (simp add: t1_def emit_def)
  have e2: "s2 = t1\<lparr>failCounts := (failCounts t1)(m := 2)\<rparr>"
    using check_answered_at_once[OF a1(3) u1 a1(4), of False] resume_fail_second[OF f1]
    by (simp only: s2_def a1(9) t1_def)
  have a2: "tunnelHealthStatus s2 = Checking" "currentTunnelURL s2 = currentTunnelURL s"
    "tunnelHealthInterval s2" "\<not> intentionallyStopping s2" "failCounts s2 m = 2"
    "cloudflaredProc s2 = Some p" "tunnels s2 = tunnels s" "restartTimers s2 = restartTimers s"
    "monitorId s2 = m"
    using a1 by (simp_all add: e2 t1_def emit_def)
  have b2: "urlCleared s2 = urlCleared s" "startTunnelCalls s2 = startTunnelCalls s"
    using b1 by (simp_all add: e2 t1_def)
  have u2: "currentTunnelURL s2 \<noteq> []" using a2 u by simp
  define t2 where "t2 = emit (HttpsGet (currentTunnelURL s2 @ ''/global/health'')
                           (''Bearer '' @ password (loadConfig s2))) s2"
  have f2: "failCounts t2 m = 2" using a2(5) by (simp add: t2_def emit_def)
  define x where "x = (killCloudflared
               ((send ''tunnel-url'' (PStr [])
                  ((setTunnelHealth Down (t2\<lparr>failCounts := (failCounts t2)(m := 0)\<rparr>))
                    \<lparr>currentTunnelURL := []\<rparr>))
                 \<lparr>tunnelRestarting := True\<rparr>))
              \<lparr>cloudflaredProc := None\<rparr>"
  have e3: "s3 = startTunnel x"
    using check_answered_at_once[OF a2(3) u2 a2(4), of False] resume_fail_third[OF f2]
    by (simp only: s3_def a2(9) t2_def x_def)
  have ax: "tunnelHealthStatus x = Down" "currentTunnelURL x = []" "tunnelRestarting x"
    "\<not> intentionallyStopping x" "restartTimers x = restartTimers s" "tunnels x = tunnels s"
    "Kill p \<in> set (trace x)"
    using a2 by (simp_all add: x_def t2_def killCloudflared_def setTunnelHealth_def send_def emit_def)
  have cp: "\<And>e t. cloudflaredProc (emit e t) = cloudflaredProc t" by (simp add: emit_def)
  have bx: "urlCleared x = urlCleared s + 1" "startTunnelCalls x = startTunnelCalls s"
    using a2(6) b2 by (simp_all add: x_def t2_def killCloudflared_def setTunnelHealth_def send_def cp)
  have a3: "tunnelHealthStatus s3 = Down" "currentTunnelURL s3 = []" "tunnelRestarting s3"
    "\<not> intentionallyStopping s3" "restartTimers s3 = restartTimers s"
    using ax by (simp_all add: e3 startTunnel_fields)
  have b3: "urlCleared s3 = urlCleared s + 1" "startTunnelCalls s3 = startTunnelCalls s + 1"
    using bx by (simp_all add: e3 startTunnel_counts)
  have k3: "Kill p \<in> set (trace s3)"
    using ax(7) by (simp add: e3 startTunnel_def send_def emit_def Let_def split: option.splits)
  from startTunnel_keeps_live[of x p c] c e ax(6)
  obtain c' where c': "tunnels s3 p = Some c'" "\<not> exited c'" by (auto simp: e3)
  have e4: "s4 = s3\<lparr>tunnels := (tunnels s3)(p := Some (c'\<lparr>exited := True\<rparr>)), tunnelRestarting := False\<rparr>"
    unfolding s4_def using c' a3(3,4) by (simp add: cloudflaredExit_def Let_def)
  have a4: "\<not> tunnelRestarting s4" "trace s4 = trace s3" "restartTimers s4 = restartTimers s"
    "tunnelHealthStatus s4 = Down" "currentTunnelURL s4 = []"
    using a3 by (simp_all add: e4)
  have b4: "urlCleared s4 = urlCleared s + 1" "startTunnelCalls s4 = startTunnelCalls s + 1"
    using b3 a4(2) by (simp_all add: urlCleared_def startTunnelCalls_def)
  show ?thesis
    unfolding Let_def m_def[symmetric] s1_def[symmetric] s2_def[symmetric] s3_def[symmetric]
      s4_def[symmetric]
    using a1(1,2) a2(1,2) b2 a3(1,2,3) b3 k3 a4 b4 by blast
qed

text \<open>
  Claim C2 fails on the code. On the example installation the URL is published and the
  health is healthy. Three checks fail in a row: the health is checking after the first
  and down after the third. The tunnel process exits while the third probe is awaited
  (the callback of the interval is asynchronous and tests its guard before the probe
  only). The exit handler finds the guard flag unset, so it clears the URL, sends the
  empty URL and arms the 2 s restart timer. The third failure then clears the URL and
  sends the empty URL again, sets the guard flag, and calls \<^verbatim>\<open>startTunnel\<close>; the timer
  calls \<^verbatim>\<open>startTunnel\<close> once more. So the URL is cleared twice, \<^verbatim>\<open>startTunnel\<close> is
  called twice, two tunnel processes are spawned, and the guard flag is left set.
\<close>

theorem tunnel_exit_during_third_probe_restarts_twice:
  "tunnelHealthStatus publishedState = Healthy
   \<and> currentTunnelURL publishedState = ''https://quick-fox-42.trycloudflare.com''
   \<and> tunnelHealthStatus (run (take 2 raceRun) publishedState) = Checking
   \<and> tunnelHealthStatus (run raceRun publishedState) = Down
   \<and> trace (run raceRun publishedState) = trace publishedState @
        [HttpsGet ''https://quick-fox-42.trycloudflare.com/global/health'' ''Bearer s3cret'',
         Send ''tunnel-health'' (PHealth Checking),
         HttpsGet ''https://quick-fox-42.trycloudflare.com/global/health'' ''Bearer s3cret'',
         HttpsGet ''https://quick-fox-42.trycloudflare.com/global/health'' ''Bearer s3cret'',
         Send ''tunnel-url'' (PStr []), SetTimeout 2000 ''startTunnel'',
         Send ''tunnel-health'' (PHealth Down), Send ''tunnel-url'' (PStr []),
         Kill 1, Called StartTunnel, SpawnTunnel 3 ''/opt/homebrew/bin/cloudflared'' 4097,
         Called StartTunnel, SpawnTunnel 4 ''/opt/homebrew/bin/cloudflared'' 4097]
   \<and> urlCleared (run raceRun publishedState) = urlCleared publishedState + 2
   \<and> startTunnelCalls (run raceRun publishedState) = startTunnelCalls publishedState + 2
   \<and> tunnelRestarting (run raceRun publishedState)"
  by code_simp

section \<open>The DNS poll before a tunnel URL is published\<close>

lemma nextPid_prim [simp]:
  "nextPid (emit e s) = nextPid s"
  "nextPid (send ch d s) = nextPid s"
  "nextPid (saveConfig c s) = nextPid s"
  "nextPid (generateOpenClawConfig c s) = nextPid s"
  "nextPid (killGateway s) = nextPid s"
  "nextPid (killCloudflared s) = nextPid s"
  "nextPid (killCaffeinate s) = nextPid s"
  "nextPid (closeGatewayWs s) = nextPid s"
  "nextPid (connectGatewayWs s) = nextPid s"
  "nextPid (startProxyServer a b s) = nextPid s"
  "nextPid (stopProxyServer s) = nextPid s"
  "nextPid (startSetupServer s) = nextPid s"
  "nextPid (stopSetupServer s) = nextPid s"
  "nextPid (startClientPresenceMonitor s) = nextPid s"
  "nextPid (stopClientPresenceMonitor s) = nextPid s"
  "nextPid (resetPresence s) = nextPid s"
  "nextPid (setTunnelHealth h s) = nextPid s"
  by (simp_all add: small_defs killCaffeinate_def Let_def split: option.splits)

lemma nextPid_same [simp]:
  "nextPid (presenceTick now s) = nextPid s"
  "nextPid (stopServer r s) = nextPid s"
  "nextPid (gatewaySettle s) = nextPid s"
  "nextPid (gatewayError m s) = nextPid s"
  "nextPid (gatewayExit code s) = nextPid s"
  "nextPid (cloudflaredError m s) = nextPid s"
  "nextPid (cloudflaredExit pid s) = nextPid s"
  "nextPid (startTunnelHealthMonitor s) = nextPid s"
  "nextPid (waitForDns pid now s) = nextPid s"
  "nextPid (dnsCallback pid err s) = nextPid s"
  "nextPid (onSuspend s) = nextPid s"
  "nextPid (onResume now s) = nextPid s"
  "nextPid (snd (heartbeat now s)) = nextPid s"
  "nextPid (ipcWorkspaceRename w n s) = nextPid s"
  "nextPid (ipcAddProtected w p s) = nextPid s"
  "nextPid (ipcRemoveProtected w q s) = nextPid s"
  by (simp_all add: presenceTick_def stopServer_def gatewaySettle_def gatewayError_def
      gatewayExit_def cloudflaredError_def cloudflaredExit_def startTunnelHealthMonitor_def
      waitForDns_def dnsCallback_def onSuspend_def onResume_def heartbeat_def
      ipcWorkspaceRename_def ipcAddProtected_def ipcRemoveProtected_def Let_def
      split: option.splits)

lemma nextPid_onData [simp]: "nextPid (onData pid chunk now xn s) = nextPid s"
  by (simp add: onData_def split: option.splits)

lemma nextPid_stopAll [simp]: "nextPid (stopAll s) = nextPid s"
  by (simp add: stopAll_def Let_def)

lemma lt_startTunnel [simp]: "pid < nextPid s \<Longrightarrow> pid < nextPid (startTunnel s)"
  by (simp add: startTunnel_def Let_def split: option.splits)

lemma lt_startServer [simp]: "pid < nextPid s \<Longrightarrow> pid < nextPid (startServer s)"
  by (simp add: startServer_def Let_def split: option.splits)

lemma lt_healthTick [simp]:
  "pid < nextPid s \<Longrightarrow> pid < nextPid (healthTick s)"
  "pid < nextPid s \<Longrightarrow> pid < nextPid (healthTickResume m ok s)"
  by (simp_all add: healthTick_def healthTickResume_def Let_def)

lemma lt_handlers [simp]:
  "pid < nextPid s \<Longrightarrow> pid < nextPid (ipcSetAiSource a k p s)"
  "pid < nextPid s \<Longrightarrow> pid < nextPid (ipcWorkspaceCreate d n s)"
  "pid < nextPid s \<Longrightarrow> pid < nextPid (ipcWorkspaceDelete w s)"
  "pid < nextPid s \<Longrightarrow> pid < nextPid (ipcWorkspaceSetActive w s)"
  "pid < nextPid s \<Longrightarrow> pid < nextPid (snd (postAiConfig req s))"
  "pid < nextPid s \<Longrightarrow> pid < nextPid (snd (postActiveWorkspace req s))"
  "pid < nextPid s \<Longrightarrow> pid < nextPid (appReady s)"
  by (simp_all add: ipcSetAiSource_def ipcWorkspaceCreate_def ipcWorkspaceDelete_def
      ipcWorkspaceSetActive_def postAiConfig_def postActiveWorkspace_def appReady_def Let_def
      split: option.splits json.splits)

lemma lt_handleRequest [simp]:
  "pid < nextPid s \<Longrightarrow> pid < nextPid (snd (handleRequest px req now s))"
  by (simp add: handleRequest_def Let_def getAiConfig_def getWorkspaces_def getSessions_def
      split: option.splits)



lemma tunnels_frames [simp]:
  "tunnels (startTunnelHealthMonitor s) = tunnels s"
  "tunnels (stopAll s) = tunnels s"
  "tunnels (emit e s) = tunnels s"
  "tunnels (send ch d s) = tunnels s"
  "tunnels (killCloudflared s) = tunnels s"
  "tunnels (setTunnelHealth h s) = tunnels s"
  "tunnels (startProxyServer a b s) = tunnels s"
  "tunnels (startSetupServer s) = tunnels s"
  by (simp_all add: startTunnelHealthMonitor_def stopAll_fields small_defs Let_def
      split: option.splits)






















end
